theory Spec2Isabelle
  imports Complex_Main "HOL-Library.AList"
begin

section \<open>Request admission: token bucket and sliding window (rate\_limiter.py)\<close>

text \<open>
  Python floats (timestamps, token counts, refill rates) are read as real numbers: the
  development is about the arithmetic the code writes down, not about rounding. Every
  call of \<^verbatim>\<open>time.time()\<close> is an explicit argument of the function that makes it.
\<close>

datatype py_error =
  KeyError | AttributeError | ZeroDivisionError | TypeError | ImportError | OtherError

subsection \<open>TokenBucket\<close>

record TokenBucket =
  capacity :: int
  refill_rate :: real
  tokens :: real
  last_refill :: real

text \<open>\<^verbatim>\<open>TokenBucket.__init__(capacity, refill_rate)\<close>; \<open>now\<close> is its clock reading.\<close>

definition TokenBucket_init :: "int \<Rightarrow> real \<Rightarrow> real \<Rightarrow> TokenBucket" where
  "TokenBucket_init cap rate now =
     \<lparr>capacity = cap, refill_rate = rate, tokens = of_int cap, last_refill = now\<rparr>"

text \<open>\<^verbatim>\<open>TokenBucket.consume(tokens)\<close>: refill, then subtract if enough is there.\<close>

definition consume :: "TokenBucket \<Rightarrow> real \<Rightarrow> int \<Rightarrow> TokenBucket \<times> bool" where
  "consume b now n =
     (let elapsed = now - last_refill b;
          b1 = b\<lparr>tokens := min (of_int (capacity b)) (tokens b + elapsed * refill_rate b),
                 last_refill := now\<rparr>
      in if of_int n \<le> tokens b1
         then (b1\<lparr>tokens := tokens b1 - of_int n\<rparr>, True)
         else (b1, False))"

text \<open>\<^verbatim>\<open>TokenBucket.get_wait_time()\<close>; the float division raises on a zero rate.\<close>

definition get_wait_time :: "TokenBucket \<Rightarrow> py_error + real" where
  "get_wait_time b =
     (if 1 \<le> tokens b then Inr 0
      else if refill_rate b = 0 then Inl ZeroDivisionError
      else Inr ((1 - tokens b) / refill_rate b))"

text \<open>A sequence of \<open>consume\<close> calls (clock reading, argument); the bucket after each call.\<close>

fun consume_calls :: "TokenBucket \<Rightarrow> (real \<times> int) list \<Rightarrow> TokenBucket list" where
  "consume_calls b [] = []"
| "consume_calls b (c # cs) =
     (let b' = fst (consume b (fst c) (snd c)) in b' # consume_calls b' cs)"

subsection \<open>SlidingWindowCounter\<close>

record SlidingWindowCounter =
  window_size :: int
  request :: "real list"

definition SlidingWindowCounter_init :: "int \<Rightarrow> SlidingWindowCounter" where
  "SlidingWindowCounter_init w = \<lparr>window_size = w, request = []\<rparr>"

text \<open>\<^verbatim>\<open>_cleanup\<close>: pop from the left while the front is strictly older than the cutoff.\<close>

definition cleanup :: "SlidingWindowCounter \<Rightarrow> real \<Rightarrow> SlidingWindowCounter" where
  "cleanup c current_time =
     (let cutoff = current_time - of_int (window_size c)
      in c\<lparr>request := dropWhile (\<lambda>x. x < cutoff) (request c)\<rparr>)"

definition add_request :: "SlidingWindowCounter \<Rightarrow> real \<Rightarrow> SlidingWindowCounter" where
  "add_request c timestamp = cleanup (c\<lparr>request := request c @ [timestamp]\<rparr>) timestamp"

definition get_count :: "SlidingWindowCounter \<Rightarrow> real \<Rightarrow> SlidingWindowCounter \<times> nat" where
  "get_count c timestamp = (let c' = cleanup c timestamp in (c', length (request c')))"

fun add_all :: "SlidingWindowCounter \<Rightarrow> real list \<Rightarrow> SlidingWindowCounter" where
  "add_all c [] = c"
| "add_all c (t # ts) = add_all (add_request c t) ts"

text \<open>
  The two readings of "the number of recorded events in the window ending at \<open>t\<close>":
  the half-open interval \<open>(t - w, t]\<close> of the specification, and the closed interval
  \<open>[t - w, t]\<close>.
\<close>

definition events_in_half_open_window :: "int \<Rightarrow> real \<Rightarrow> real list \<Rightarrow> nat" where
  "events_in_half_open_window w t ts = length (filter (\<lambda>x. t - of_int w < x \<and> x \<le> t) ts)"

definition events_in_closed_window :: "int \<Rightarrow> real \<Rightarrow> real list \<Rightarrow> nat" where
  "events_in_closed_window w t ts = length (filter (\<lambda>x. t - of_int w \<le> x \<and> x \<le> t) ts)"

section \<open>Request admission: the rate limiter (rate\_limiter.py)\<close>

subsection \<open>Python values the limiter relies on\<close>

text \<open>
  A \<^verbatim>\<open>dict\<close> is an association list in insertion order. \<open>d[k]\<close> raises
  \<^verbatim>\<open>KeyError\<close> on a missing key, and so does \<open>d[k] += 1\<close>; \<open>d[k] = v\<close> is
  \<^const>\<open>AList.update\<close>, \<open>del d[k]\<close> and \<open>d.pop(k, None)\<close> are \<^const>\<open>AList.delete\<close>.
\<close>

definition dict_get :: "('k \<times> 'v) list \<Rightarrow> 'k \<Rightarrow> py_error + 'v" where
  "dict_get d k = (case map_of d k of None \<Rightarrow> Inl KeyError | Some v \<Rightarrow> Inr v)"

definition dict_incr :: "('k \<times> int) list \<Rightarrow> 'k \<Rightarrow> py_error + ('k \<times> int) list" where
  "dict_incr d k =
     (case map_of d k of None \<Rightarrow> Inl KeyError | Some v \<Rightarrow> Inr (AList.update k (v + 1) d))"

definition pop_keys :: "'k list \<Rightarrow> ('k \<times> 'v) list \<Rightarrow> ('k \<times> 'v) list" where
  "pop_keys ks d = fold AList.delete ks d"

text \<open>\<^verbatim>\<open>int(x)\<close> of a float truncates towards zero.\<close>

definition py_int :: "real \<Rightarrow> int" where
  "py_int x = (if 0 \<le> x then \<lfloor>x\<rfloor> else \<lceil>x\<rceil>)"

text \<open>
  The library functions of \<^verbatim>\<open>hashlib\<close> and \<^verbatim>\<open>str\<close> are parameters: the hex digests
  of SHA-256 and MD5 of an encoded string, \<^verbatim>\<open>s.lower().strip()\<close> and
  \<^verbatim>\<open>s.lower()\<close>.
\<close>

record pylib =
  sha256_hexdigest :: "string \<Rightarrow> string"
  md5_hexdigest :: "string \<Rightarrow> string"
  lower_strip :: "string \<Rightarrow> string"
  str_lower :: "string \<Rightarrow> string"

text \<open>
  The module-level \<^verbatim>\<open>logger\<close> is the singleton of class \<^verbatim>\<open>logger\<close> in
  encryption\_utils.py. These are the names that class and its instances define;
  reading any other attribute raises \<^verbatim>\<open>AttributeError\<close>.
\<close>

definition logger_attributes :: "string list" where
  "logger_attributes =
     [''_instance'', ''_lock'', ''_initialized'', ''_initialize'', ''logger'', ''info_'',
      ''log_query'', ''log_client_operation'', ''log_security_event'', ''log_error'',
      ''_safe_log_error'']"

definition logger_getattr :: "string \<Rightarrow> py_error + unit" where
  "logger_getattr name = (if name \<in> set logger_attributes then Inr () else Inl AttributeError)"

subsection \<open>Configuration and state\<close>

record RateLimitConfig =
  request_per_minitue :: int
  request_per_hour :: int
  request_per_day :: int
  brust_size :: int
  brust_window :: int
  duplicate_message_window :: int
  max_message_lengh :: int
  suspicious_requests_per_minitue :: int
  block_durtion :: int

definition RateLimitConfig_default :: RateLimitConfig where
  "RateLimitConfig_default =
     \<lparr>request_per_minitue = 300, request_per_hour = 5000, request_per_day = 50000,
      brust_size = 120, brust_window = 60, duplicate_message_window = 10,
      max_message_lengh = 4000, suspicious_requests_per_minitue = 100, block_durtion = 120\<rparr>"

record RateLimiter =
  config :: RateLimitConfig
  token_bucket :: "(string \<times> TokenBucket) list"
  minitue_counters :: "(string \<times> SlidingWindowCounter) list"
  hour_counters :: "(string \<times> SlidingWindowCounter) list"
  day_counters :: "(string \<times> SlidingWindowCounter) list"
  last_messages :: "(string \<times> (string \<times> real)) list"
  burst_tracker :: "(string \<times> real list) list"
  blocked_users :: "(string \<times> real) list"
  stats :: "(string \<times> int) list"
  cleanup_interval :: int
  last_cleanup :: real

text \<open>\<^verbatim>\<open>RateLimiter.__init__(config)\<close>; \<open>now\<close> is its clock reading.\<close>

definition RateLimiter_init :: "RateLimitConfig \<Rightarrow> real \<Rightarrow> RateLimiter" where
  "RateLimiter_init cfg now =
     \<lparr>config = cfg, token_bucket = [], minitue_counters = [], hour_counters = [],
      day_counters = [], last_messages = [], burst_tracker = [], blocked_users = [],
      stats = [(''total_requests'', 0), (''blocked_requests'', 0), (''spam_detected'', 0),
               (''burst_violations'', 0)],
      cleanup_interval = 300, last_cleanup = now\<rparr>"

text \<open>
  The result of \<^verbatim>\<open>check_rate_limit\<close>: the triple \<open>(allowed, reason, retry_after)\<close>, or
  the exception that leaves the call. The limiter is returned in both cases, with the
  mutations made up to that point.
\<close>

type_synonym decision = "bool \<times> string option \<times> int option"

type_synonym outcome = "RateLimiter \<times> (py_error + decision)"

text \<open>
  One call reads the clock up to three times: \<open>current_time\<close> at its start, inside
  \<^verbatim>\<open>TokenBucket.__init__\<close> when the bucket is created, and inside \<^verbatim>\<open>consume\<close>.
\<close>

record clock =
  t_check :: real
  t_bucket :: real
  t_consume :: real

definition at_time :: "real \<Rightarrow> clock" where
  "at_time t = \<lparr>t_check = t, t_bucket = t, t_consume = t\<rparr>"

definition get_user_id :: "pylib \<Rightarrow> string \<Rightarrow> string \<Rightarrow> string" where
  "get_user_id H phone_number client_id =
     take 16 (sha256_hexdigest H (client_id @ '':'' @ phone_number))"

subsection \<open>The periodic sweep\<close>

definition cleanup_old_data :: "RateLimiter \<Rightarrow> real \<Rightarrow> RateLimiter \<times> (py_error + unit)" where
  "cleanup_old_data rl current_time =
     (let cutoff = current_time - 3600;
          old_users = map fst (filter (\<lambda>(u, (h, timestamp)). timestamp < cutoff) (last_messages rl));
          expired_blocks =
            map fst (filter (\<lambda>(u, unblock_time). unblock_time \<le> current_time) (blocked_users rl));
          counted = map (\<lambda>(u, c). (u, get_count c current_time)) (day_counters rl);
          inactive_users = map fst (filter (\<lambda>(u, (c, n)). n = 0) counted);
          rl' = rl\<lparr>last_cleanup := current_time,
                   last_messages := pop_keys old_users (last_messages rl),
                   blocked_users := pop_keys expired_blocks (blocked_users rl),
                   token_bucket := pop_keys inactive_users (token_bucket rl),
                   minitue_counters := pop_keys inactive_users (minitue_counters rl),
                   hour_counters := pop_keys inactive_users (hour_counters rl),
                   day_counters := pop_keys inactive_users (map (\<lambda>(u, (c, n)). (u, c)) counted),
                   burst_tracker := pop_keys inactive_users (burst_tracker rl)\<rparr>
      in if inactive_users \<noteq> []
         then (rl', logger_getattr ''logging'')
         else (rl', Inr ()))"

subsection \<open>\<^verbatim>\<open>check_rate_limit\<close>, stage by stage, last stage first\<close>

definition sweep_stage :: "RateLimiter \<Rightarrow> real \<Rightarrow> outcome" where
  "sweep_stage rl current_time =
     (if of_int (cleanup_interval rl) < current_time - last_cleanup rl
      then (case cleanup_old_data rl current_time of
              (rl', Inl e) \<Rightarrow> (rl', Inl e)
            | (rl', Inr u) \<Rightarrow> (rl', Inr (True, None, None)))
      else (rl, Inr (True, None, None)))"

definition threshold_stage :: "RateLimiter \<Rightarrow> string \<Rightarrow> real \<Rightarrow> nat \<Rightarrow> nat \<Rightarrow> nat \<Rightarrow> outcome" where
  "threshold_stage rl user_id current_time minute_count hour_count day_count =
     (if suspicious_requests_per_minitue (config rl) < int minute_count
      then (let rl1 = rl\<lparr>blocked_users :=
                         AList.update user_id (current_time + of_int (block_durtion (config rl)))
                           (blocked_users rl)\<rparr>
            in case dict_incr (stats rl1) ''blocked_requests'' of
                 Inl e \<Rightarrow> (rl1, Inl e)
               | Inr s \<Rightarrow> (rl1\<lparr>stats := s\<rparr>,
                            Inr (False, Some ''Suspicious activity detected. Temporarily blocked.'',
                                 Some (block_durtion (config rl)))))
      else if request_per_minitue (config rl) < int minute_count
      then (rl, Inr (False, Some ''Too many requests in per minute. Please wait.'', Some 60))
      else if request_per_hour (config rl) < int hour_count
      then (rl, Inr (False, Some ''Hourly request limit reached. Please try again later.'', Some 300))
      else if request_per_day (config rl) < int day_count
      then (rl, Inr (False, Some ''Dailty request limit reached. Please try again tommorow.'', Some 3600))
      else sweep_stage rl current_time)"

text \<open>\<open>self.minitue_counters[user_id].add_request(current_time)\<close> and its siblings.\<close>

definition counter_add ::
  "(string \<times> SlidingWindowCounter) list \<Rightarrow> string \<Rightarrow> real
     \<Rightarrow> py_error + (string \<times> SlidingWindowCounter) list" where
  "counter_add d user_id t =
     (case dict_get d user_id of
        Inl e \<Rightarrow> Inl e
      | Inr c \<Rightarrow> Inr (AList.update user_id (add_request c t) d))"

definition counter_count ::
  "(string \<times> SlidingWindowCounter) list \<Rightarrow> string \<Rightarrow> real
     \<Rightarrow> py_error + ((string \<times> SlidingWindowCounter) list \<times> nat)" where
  "counter_count d user_id t =
     (case dict_get d user_id of
        Inl e \<Rightarrow> Inl e
      | Inr c \<Rightarrow> Inr (AList.update user_id (fst (get_count c t)) d, snd (get_count c t)))"

definition window_stage :: "RateLimiter \<Rightarrow> string \<Rightarrow> real \<Rightarrow> outcome" where
  "window_stage rl user_id current_time =
     (case counter_add (minitue_counters rl) user_id current_time of
        Inl e \<Rightarrow> (rl, Inl e)
      | Inr m1 \<Rightarrow>
     (let rl1 = rl\<lparr>minitue_counters := m1\<rparr> in
      case counter_add (hour_counters rl1) user_id current_time of
        Inl e \<Rightarrow> (rl1, Inl e)
      | Inr h1 \<Rightarrow>
     (let rl2 = rl1\<lparr>hour_counters := h1\<rparr> in
      case counter_add (day_counters rl2) user_id current_time of
        Inl e \<Rightarrow> (rl2, Inl e)
      | Inr d1 \<Rightarrow>
     (let rl3 = rl2\<lparr>day_counters := d1\<rparr> in
      case counter_count (minitue_counters rl3) user_id current_time of
        Inl e \<Rightarrow> (rl3, Inl e)
      | Inr (m2, minute_count) \<Rightarrow>
     (let rl4 = rl3\<lparr>minitue_counters := m2\<rparr> in
      case counter_count (hour_counters rl4) user_id current_time of
        Inl e \<Rightarrow> (rl4, Inl e)
      | Inr (h2, hour_count) \<Rightarrow>
     (let rl5 = rl4\<lparr>hour_counters := h2\<rparr> in
      case counter_count (day_counters rl5) user_id current_time of
        Inl e \<Rightarrow> (rl5, Inl e)
      | Inr (d2, day_count) \<Rightarrow>
          threshold_stage (rl5\<lparr>day_counters := d2\<rparr>) user_id current_time
            minute_count hour_count day_count))))))"

definition token_stage :: "clock \<Rightarrow> RateLimiter \<Rightarrow> string \<Rightarrow> real \<Rightarrow> outcome" where
  "token_stage clk rl user_id current_time =
     (case dict_get (token_bucket rl) user_id of
        Inl e \<Rightarrow> (rl, Inl e)
      | Inr b \<Rightarrow>
          (let b' = fst (consume b (t_consume clk) 1);
               rl1 = rl\<lparr>token_bucket := AList.update user_id b' (token_bucket rl)\<rparr>
           in if \<not> snd (consume b (t_consume clk) 1)
              then (case get_wait_time b' of
                      Inl e \<Rightarrow> (rl1, Inl e)
                    | Inr w \<Rightarrow> (rl1, Inr (False, Some ''Rate limit exceeded. Please wait.'',
                                           Some (py_int w + 1))))
              else window_stage rl1 user_id current_time))"

definition burst_stage :: "clock \<Rightarrow> RateLimiter \<Rightarrow> string \<Rightarrow> real \<Rightarrow> outcome" where
  "burst_stage clk rl user_id current_time =
     (case dict_get (burst_tracker rl) user_id of
        Inl e \<Rightarrow> (rl, Inl e)
      | Inr q \<Rightarrow>
          (let burst_cutoff = current_time - of_int (brust_window (config rl));
               q' = dropWhile (\<lambda>x. x < burst_cutoff) (q @ [current_time]);
               rl1 = rl\<lparr>burst_tracker := AList.update user_id q' (burst_tracker rl)\<rparr>
           in if brust_size (config rl) < int (length q')
              then (case dict_incr (stats rl1) ''burst_voilations'' of
                      Inl e \<Rightarrow> (rl1, Inl e)
                    | Inr s \<Rightarrow> (rl1\<lparr>stats := s\<rparr>,
                                 Inr (False, Some ''Too many requests in short time. Please slow down.'',
                                      Some 10)))
              else token_stage clk rl1 user_id current_time))"

definition length_stage :: "clock \<Rightarrow> RateLimiter \<Rightarrow> string \<Rightarrow> real \<Rightarrow> string \<Rightarrow> outcome" where
  "length_stage clk rl user_id current_time message =
     (if max_message_lengh (config rl) < int (length message)
      then (rl, Inr (False, Some ''Message too long. Please keep it under 2000 character.'', None))
      else burst_stage clk rl user_id current_time)"

definition is_duplicate :: "RateLimiter \<Rightarrow> string \<Rightarrow> real \<Rightarrow> string \<Rightarrow> bool" where
  "is_duplicate rl user_id current_time message_hash =
     (case map_of (last_messages rl) user_id of
        None \<Rightarrow> False
      | Some (last_hash, last_time) \<Rightarrow>
          last_hash = message_hash
          \<and> current_time - last_time < of_int (duplicate_message_window (config rl)))"

definition duplicate_stage ::
  "pylib \<Rightarrow> clock \<Rightarrow> RateLimiter \<Rightarrow> string \<Rightarrow> real \<Rightarrow> string \<Rightarrow> outcome" where
  "duplicate_stage H clk rl user_id current_time message =
     (let message_hash = md5_hexdigest H (lower_strip H message)
      in if is_duplicate rl user_id current_time message_hash
         then (case dict_incr (stats rl) ''spam_detected'' of
                 Inl e \<Rightarrow> (rl, Inl e)
               | Inr s \<Rightarrow> (rl\<lparr>stats := s\<rparr>,
                            Inr (False, Some ''Duplicated message detected. Please wait before responding.'',
                                 Some 30)))
         else length_stage clk
                (rl\<lparr>last_messages :=
                      AList.update user_id (message_hash, current_time) (last_messages rl)\<rparr>)
                user_id current_time message)"

text \<open>"Initialize trackers if needed".\<close>

definition init_trackers :: "clock \<Rightarrow> RateLimiter \<Rightarrow> string \<Rightarrow> RateLimiter" where
  "init_trackers clk rl user_id =
     (let rl1 = (if map_of (token_bucket rl) user_id = None
                 then rl\<lparr>token_bucket :=
                          AList.update user_id
                            (TokenBucket_init (brust_size (config rl))
                               (of_int (request_per_minitue (config rl)) / 60) (t_bucket clk))
                            (token_bucket rl)\<rparr>
                 else rl)
      in if map_of (minitue_counters rl1) user_id = None
         then rl1\<lparr>minitue_counters :=
                     AList.update user_id (SlidingWindowCounter_init 60) (minitue_counters rl1),
                   hour_counters :=
                     AList.update user_id (SlidingWindowCounter_init 3600) (hour_counters rl1),
                   day_counters :=
                     AList.update user_id (SlidingWindowCounter_init 86400) (day_counters rl1),
                   burst_tracker := AList.update user_id [] (burst_tracker rl1)\<rparr>
         else rl1)"

definition is_blocked :: "RateLimiter \<Rightarrow> string \<Rightarrow> real \<Rightarrow> bool" where
  "is_blocked rl user_id current_time =
     (case map_of (blocked_users rl) user_id of
        None \<Rightarrow> False
      | Some unblock_time \<Rightarrow> current_time < unblock_time)"

definition blocked_stage ::
  "pylib \<Rightarrow> clock \<Rightarrow> RateLimiter \<Rightarrow> string \<Rightarrow> real \<Rightarrow> string \<Rightarrow> outcome" where
  "blocked_stage H clk rl user_id current_time message =
     (case map_of (blocked_users rl) user_id of
        Some unblock_time \<Rightarrow>
          if current_time < unblock_time
          then (rl, Inr (False, Some ''Temporary block due to suspicious activity'',
                         Some (py_int (unblock_time - current_time))))
          else duplicate_stage H clk
                 (init_trackers clk
                    (rl\<lparr>blocked_users := AList.delete user_id (blocked_users rl)\<rparr>) user_id)
                 user_id current_time message
      | None \<Rightarrow>
          duplicate_stage H clk (init_trackers clk rl user_id) user_id current_time message)"

definition check_rate_limit ::
  "pylib \<Rightarrow> clock \<Rightarrow> RateLimiter \<Rightarrow> string \<Rightarrow> string \<Rightarrow> string \<Rightarrow> outcome" where
  "check_rate_limit H clk rl phone_number client_id message =
     (let user_id = get_user_id H phone_number client_id;
          current_time = t_check clk
      in case dict_incr (stats rl) ''total_requests'' of
           Inl e \<Rightarrow> (rl, Inl e)
         | Inr s \<Rightarrow> blocked_stage H clk (rl\<lparr>stats := s\<rparr>) user_id current_time message)"

text \<open>The two administrative operations that change the limiter between checks.\<close>

definition unblock_user :: "pylib \<Rightarrow> RateLimiter \<Rightarrow> string \<Rightarrow> string \<Rightarrow> RateLimiter \<times> bool" where
  "unblock_user H rl phone_number client_id =
     (let user_id = get_user_id H phone_number client_id
      in if map_of (blocked_users rl) user_id \<noteq> None
         then (rl\<lparr>blocked_users := AList.delete user_id (blocked_users rl)\<rparr>, True)
         else (rl, False))"

definition reset_user_limits :: "pylib \<Rightarrow> RateLimiter \<Rightarrow> string \<Rightarrow> string \<Rightarrow> RateLimiter" where
  "reset_user_limits H rl phone_number client_id =
     (let user_id = get_user_id H phone_number client_id
      in rl\<lparr>token_bucket := AList.delete user_id (token_bucket rl),
            minitue_counters := AList.delete user_id (minitue_counters rl),
            day_counters := AList.delete user_id (day_counters rl),
            hour_counters := AList.delete user_id (hour_counters rl),
            burst_tracker := AList.delete user_id (burst_tracker rl),
            last_messages := AList.delete user_id (last_messages rl),
            blocked_users := AList.delete user_id (blocked_users rl)\<rparr>)"

text \<open>
  A run of the limiter: timed checks by (phone number, client id, message), and the two
  administrative calls in between. The exception of a check is caught by the caller and
  the run goes on; the outcomes of the checks are collected in order.
\<close>

datatype event =
  Check real string string string
| Unblock string string
| Reset string string

fun run_events ::
  "pylib \<Rightarrow> RateLimiter \<Rightarrow> event list \<Rightarrow> RateLimiter \<times> (py_error + decision) list" where
  "run_events H rl [] = (rl, [])"
| "run_events H rl (Check t phone_number client_id message # es) =
     (let r = check_rate_limit H (at_time t) rl phone_number client_id message;
          rest = run_events H (fst r) es
      in (fst rest, snd r # snd rest))"
| "run_events H rl (Unblock phone_number client_id # es) =
     run_events H (fst (unblock_user H rl phone_number client_id)) es"
| "run_events H rl (Reset phone_number client_id # es) =
     run_events H (reset_user_limits H rl phone_number client_id) es"

text \<open>A stand-in for the library in concrete runs: digests that are the identity.\<close>

definition plain_lib :: pylib where
  "plain_lib = \<lparr>sha256_hexdigest = (\<lambda>s. s), md5_hexdigest = (\<lambda>s. s),
                 lower_strip = (\<lambda>s. s), str_lower = (\<lambda>s. s)\<rparr>"

text \<open>
  A flood: \<open>n\<close> pairwise different messages of one sender, all at time \<open>t\<close>; and the
  administrator unblocking the sender before each of \<open>n\<close> further messages.
\<close>

definition flood :: "real \<Rightarrow> string \<Rightarrow> string \<Rightarrow> nat \<Rightarrow> nat \<Rightarrow> event list" where
  "flood t phone_number client_id k n =
     map (\<lambda>i. Check t phone_number client_id (replicate i (CHR ''x''))) [k..<k + n]"

definition unblocked_flood :: "real \<Rightarrow> string \<Rightarrow> string \<Rightarrow> nat \<Rightarrow> nat \<Rightarrow> event list" where
  "unblocked_flood t phone_number client_id k n =
     concat (map (\<lambda>i. [Unblock phone_number client_id,
                          Check t phone_number client_id (replicate i (CHR ''x''))]) [k..<k + n])"

text \<open>
  The statistics dictionary has the four keys the constructor gives it; no operation
  adds or removes a key.
\<close>

definition has_constructor_stats :: "RateLimiter \<Rightarrow> bool" where
  "has_constructor_stats rl =
     (map fst (stats rl) =
        [''total_requests'', ''blocked_requests'', ''spam_detected'', ''burst_violations''])"

abbreviation per_minute_rejection :: decision where
  "per_minute_rejection \<equiv>
     (False, Some ''Too many requests in per minute. Please wait.'', Some 60)"

abbreviation duplicate_rejection :: decision where
  "duplicate_rejection \<equiv>
     (False, Some ''Duplicated message detected. Please wait before responding.'', Some 30)"

text \<open>The limiter with the record of last messages replaced; a device of the proofs.\<close>

definition with_last_messages ::
  "(string \<times> (string \<times> real)) list \<Rightarrow> RateLimiter \<Rightarrow> RateLimiter" where
  "with_last_messages x rl = rl\<lparr>last_messages := x\<rparr>"

text \<open>A default limiter built at time 0 that has just admitted one message.\<close>

definition limiter_after_hello :: RateLimiter where
  "limiter_after_hello =
     fst (check_rate_limit plain_lib (at_time 0) (RateLimiter_init RateLimitConfig_default 0)
            ''111'' ''clientA'' ''hello'')"

text \<open>
  A limiter with the suspicious threshold at 1, built at time 0, after two messages of
  one sender: the second one, at time 1, is on record and has blocked the sender until
  time 121.
\<close>

definition limiter_blocked :: RateLimiter where
  "limiter_blocked =
     fst (run_events plain_lib
            (RateLimiter_init (RateLimitConfig_default\<lparr>suspicious_requests_per_minitue := 1\<rparr>) 0)
            [Check 0 ''111'' ''clientA'' ''a'', Check 1 ''111'' ''clientA'' ''hello''])"

abbreviation blocked_rejection :: "int \<Rightarrow> decision" where
  "blocked_rejection retry_after \<equiv>
     (False, Some ''Temporary block due to suspicious activity'', Some retry_after)"

section \<open>The query cache of an answer engine (class RAGCache, Rag.py)\<close>

text \<open>
  An entry of \<open>query_cache\<close> is a dictionary with a \<open>timestamp\<close>: written by
  \<^verbatim>\<open>cache_query_result\<close> with a context and a relevance, or by \<^verbatim>\<open>set\<close> with a value.
\<close>

datatype cache_entry =
  ContextEntry string real real
| ValueEntry string real

fun entry_timestamp :: "cache_entry \<Rightarrow> real" where
  "entry_timestamp (ContextEntry context timestamp relevance) = timestamp"
| "entry_timestamp (ValueEntry v timestamp) = timestamp"

record RAGCache =
  query_cache :: "(string \<times> cache_entry) list"
  max_query_cache :: int

definition RAGCache_init :: "int \<Rightarrow> RAGCache" where
  "RAGCache_init max_query = \<lparr>query_cache = [], max_query_cache = max_query\<rparr>"

text \<open>
  The eviction both writers share. \<^verbatim>\<open>next(iter(d))\<close> on an empty dictionary raises
  \<^verbatim>\<open>StopIteration\<close>; the writer's handler logs it and the write is lost (\<open>None\<close>).
\<close>

definition evict_if_full :: "RAGCache \<Rightarrow> (string \<times> cache_entry) list option" where
  "evict_if_full c =
     (if max_query_cache c \<le> int (length (query_cache c))
      then (case query_cache c of
              [] \<Rightarrow> None
            | (oldest_key, e) # rest \<Rightarrow> Some (AList.delete oldest_key (query_cache c)))
      else Some (query_cache c))"

definition cache_query_result ::
  "pylib \<Rightarrow> RAGCache \<Rightarrow> string \<Rightarrow> string \<Rightarrow> real \<Rightarrow> real \<Rightarrow> RAGCache" where
  "cache_query_result H c query context relevance_score now =
     (if query = [] \<or> context = [] then c
      else (let query_hash = sha256_hexdigest H (str_lower H query)
            in case evict_if_full c of
                 None \<Rightarrow> c
               | Some d \<Rightarrow>
                   c\<lparr>query_cache :=
                       AList.update query_hash (ContextEntry context now relevance_score) d\<rparr>))"

text \<open>
  \<^verbatim>\<open>get_cached_query(query, max_age_seconds)\<close> at clock reading \<open>now\<close>: an entry is
  returned while its age is at most \<open>max_age_seconds\<close>, and popped otherwise.
\<close>

definition get_cached_query ::
  "pylib \<Rightarrow> RAGCache \<Rightarrow> string \<Rightarrow> int \<Rightarrow> real \<Rightarrow> RAGCache \<times> cache_entry option" where
  "get_cached_query H c query max_age_seconds now =
     (if query = [] then (c, None)
      else (let query_hash = sha256_hexdigest H (str_lower H query)
            in case map_of (query_cache c) query_hash of
                 Some data \<Rightarrow>
                   if now - entry_timestamp data \<le> of_int max_age_seconds
                   then (c, Some data)
                   else (c\<lparr>query_cache := AList.delete query_hash (query_cache c)\<rparr>, None)
               | None \<Rightarrow>
                   (c\<lparr>query_cache := AList.delete query_hash (query_cache c)\<rparr>, None)))"

text \<open>\<^verbatim>\<open>RAGCache.get(key)\<close> reads no clock and changes nothing.\<close>

definition RAGCache_get :: "RAGCache \<Rightarrow> string \<Rightarrow> cache_entry option" where
  "RAGCache_get c key = map_of (query_cache c) key"

definition RAGCache_set :: "RAGCache \<Rightarrow> string \<Rightarrow> string \<Rightarrow> real \<Rightarrow> RAGCache" where
  "RAGCache_set c key v now =
     (case evict_if_full c of
        None \<Rightarrow> c
      | Some d \<Rightarrow> c\<lparr>query_cache := AList.update key (ValueEntry v now) d\<rparr>)"

section \<open>The cache of answer engines (class RAGCacheManager, app.py)\<close>

text \<open>
  An engine (\<^verbatim>\<open>RAGBot\<close>) is known here by the order in which it was constructed, the
  client it serves and the document it was built from: constructing it is the one
  embedding-build pass over that document.
\<close>

record RAGBot =
  instance_no :: nat
  bot_client_id :: string
  document_text :: string

type_synonym client_data = "(string \<times> string) list"

record cache_item =
  item_rag :: RAGBot
  item_client_data :: client_data
  expires_at :: real

record RAGCacheManager =
  cache :: "(string \<times> cache_item) list"
  ttl_seconds :: int
  max_cache_size :: int
  hits :: nat
  misses :: nat


text \<open>
  What \<^verbatim>\<open>get_or_create_rag\<close> calls outside its own class: the document store
  (\<^verbatim>\<open>get_client\<close>, its values unwrapped to plain strings; \<open>None\<close> when the client is
  not found), \<^verbatim>\<open>str.strip\<close>, the text of \<^verbatim>\<open>we_are()\<close>, and whether the constructor
  \<^verbatim>\<open>RAGBot(client_id, document_text)\<close> returns or raises.
\<close>

record services =
  get_client :: "string \<Rightarrow> client_data option"
  str_strip :: "string \<Rightarrow> string"
  we_are :: string
  RAGBot_returns :: "string \<Rightarrow> string \<Rightarrow> bool"

text \<open>
  The method has three parts: the lookup under the lock, the fetch and construction
  outside the lock, and the store under the lock. A running call is at one of them, or
  has returned (\<open>None\<close> stands for the pair \<^verbatim>\<open>(None, None)\<close>).
\<close>

datatype position =
  AtLookup
| AtBuild
| AtStore RAGBot client_data
| Returned "(RAGBot \<times> client_data) option"

record call =
  call_client_id :: string
  current_time :: real
  progress :: position

text \<open>First critical section: hit or miss.\<close>

definition lookup_step :: "RAGCacheManager \<Rightarrow> call \<Rightarrow> RAGCacheManager \<times> call" where
  "lookup_step m c =
     (case map_of (cache m) (call_client_id c) of
        Some cached_item \<Rightarrow>
          if current_time c < expires_at cached_item
          then (m\<lparr>hits := hits m + 1\<rparr>,
                c\<lparr>progress := Returned (Some (item_rag cached_item, item_client_data cached_item))\<rparr>)
          else (m\<lparr>misses := misses m + 1\<rparr>, c\<lparr>progress := AtBuild\<rparr>)
      | None \<Rightarrow> (m\<lparr>misses := misses m + 1\<rparr>, c\<lparr>progress := AtBuild\<rparr>))"

text \<open>
  Outside the lock: fetch the client, check its document, construct the engine. The
  number of engines constructed so far is threaded through; an exception of the
  constructor is caught by the method and gives \<^verbatim>\<open>(None, None)\<close>.
\<close>

definition build_step :: "services \<Rightarrow> nat \<Rightarrow> call \<Rightarrow> nat \<times> call" where
  "build_step env constructed c =
     (case get_client env (call_client_id c) of
        None \<Rightarrow> (constructed, c\<lparr>progress := Returned None\<rparr>)
      | Some data \<Rightarrow>
          if data = [] then (constructed, c\<lparr>progress := Returned None\<rparr>)
          else (case map_of data ''Uploaded Document'' of
                  None \<Rightarrow> (constructed, c\<lparr>progress := Returned None\<rparr>)
                | Some uploaded_doc \<Rightarrow>
                    if uploaded_doc = [] then (constructed, c\<lparr>progress := Returned None\<rparr>)
                    else if length (str_strip env uploaded_doc) < 10
                    then (constructed, c\<lparr>progress := Returned None\<rparr>)
                    else (let doc = uploaded_doc @ we_are env
                          in if RAGBot_returns env (call_client_id c) doc
                             then (constructed + 1,
                                   c\<lparr>progress := AtStore
                                      \<lparr>instance_no = constructed,
                                       bot_client_id = call_client_id c,
                                       document_text = doc\<rparr> data\<rparr>)
                             else (constructed, c\<lparr>progress := Returned None\<rparr>))))"

text \<open>\<^verbatim>\<open>_evict_oldest\<close>: delete the first key of least \<open>expires_at\<close>.\<close>

fun oldest_key :: "(string \<times> cache_item) list \<Rightarrow> string option" where
  "oldest_key [] = None"
| "oldest_key ((k, v) # rest) =
     (case oldest_key rest of
        None \<Rightarrow> Some k
      | Some k' \<Rightarrow>
          (case map_of rest k' of
             None \<Rightarrow> Some k
           | Some v' \<Rightarrow> if expires_at v' < expires_at v then Some k' else Some k))"

definition evict_oldest :: "(string \<times> cache_item) list \<Rightarrow> (string \<times> cache_item) list" where
  "evict_oldest d = (case oldest_key d of None \<Rightarrow> d | Some k \<Rightarrow> AList.delete k d)"

text \<open>Second critical section: store the engine, evict on overflow, return it.\<close>

definition store_step ::
  "RAGCacheManager \<Rightarrow> call \<Rightarrow> RAGBot \<Rightarrow> client_data \<Rightarrow> RAGCacheManager \<times> call" where
  "store_step m c rag data =
     (let d = AList.update (call_client_id c)
                \<lparr>item_rag = rag, item_client_data = data,
                 expires_at = current_time c + of_int (ttl_seconds m)\<rparr> (cache m);
          d' = (if max_cache_size m < int (length d) then evict_oldest d else d)
      in (m\<lparr>cache := d'\<rparr>, c\<lparr>progress := Returned (Some (rag, data))\<rparr>))"

text \<open>
  Calls in progress on one manager. A step runs the next part of one call; a schedule
  is the order in which the calls take their steps. Calls that have returned, and
  numbers that name no call, leave the system as it is.
\<close>

record system =
  manager :: RAGCacheManager
  calls :: "call list"
  constructed :: nat

definition start :: "RAGCacheManager \<Rightarrow> (string \<times> real) list \<Rightarrow> system" where
  "start m cs =
     \<lparr>manager = m,
      calls = map (\<lambda>(cid, t). \<lparr>call_client_id = cid, current_time = t, progress = AtLookup\<rparr>) cs,
      constructed = 0\<rparr>"

definition step :: "services \<Rightarrow> nat \<Rightarrow> system \<Rightarrow> system" where
  "step env i s =
     (if length (calls s) \<le> i then s
      else (let c = calls s ! i
            in case progress c of
                 AtLookup \<Rightarrow>
                   (let r = lookup_step (manager s) c
                    in s\<lparr>manager := fst r, calls := (calls s)[i := snd r]\<rparr>)
               | AtBuild \<Rightarrow>
                   (let r = build_step env (constructed s) c
                    in s\<lparr>constructed := fst r, calls := (calls s)[i := snd r]\<rparr>)
               | AtStore rag data \<Rightarrow>
                   (let r = store_step (manager s) c rag data
                    in s\<lparr>manager := fst r, calls := (calls s)[i := snd r]\<rparr>)
               | Returned res \<Rightarrow> s))"

fun run :: "services \<Rightarrow> system \<Rightarrow> nat list \<Rightarrow> system" where
  "run env s [] = s"
| "run env s (i # schedule) = run env (step env i s) schedule"

text \<open>One call run alone from lookup to return: the method as a sequential program.\<close>

definition get_or_create_rag ::
  "services \<Rightarrow> RAGCacheManager \<Rightarrow> nat \<Rightarrow> string \<Rightarrow> real
     \<Rightarrow> (RAGCacheManager \<times> nat) \<times> (RAGBot \<times> client_data) option" where
  "get_or_create_rag env m n client_id now =
     (let s = run env (start m [(client_id, now)]\<lparr>constructed := n\<rparr>) [0, 0, 0]
      in ((manager s, constructed s),
          (case progress (calls s ! 0) of Returned res \<Rightarrow> res | _ \<Rightarrow> None)))"




section \<open>Python text and JSON values (Rag.py)\<close>

text \<open>
  A Python \<^verbatim>\<open>str\<close> is a list of code points, so that \<^verbatim>\<open>len\<close> and indexing count what
  Python counts. The ASCII part of a literal is written as a string, every other
  character by its code point.
\<close>

type_synonym pystr = "nat list"

definition ascii :: "string \<Rightarrow> pystr" where
  "ascii s = map of_char s"

text \<open>\<^verbatim>\<open>str.isspace\<close> of one character, which is also what \<^verbatim>\<open>\s\<close> matches.\<close>

definition is_space :: "nat \<Rightarrow> bool" where
  "is_space c =
     ((9 \<le> c \<and> c \<le> 13) \<or> (28 \<le> c \<and> c \<le> 32) \<or> c = 133 \<or> c = 160 \<or> c = 5760
      \<or> (8192 \<le> c \<and> c \<le> 8202) \<or> c = 8232 \<or> c = 8233 \<or> c = 8239 \<or> c = 8287
      \<or> c = 12288)"

definition strip :: "pystr \<Rightarrow> pystr" where
  "strip s = rev (dropWhile is_space (rev (dropWhile is_space s)))"

text \<open>
  The case mappings of the Unicode database are parameters: \<^verbatim>\<open>str.lower\<close>,
  \<^verbatim>\<open>str.upper\<close>, the equality of two characters under \<^verbatim>\<open>re.IGNORECASE\<close>, and the value
  of a decimal digit (\<^verbatim>\<open>\d\<close> matches the characters that have one).
\<close>

record unicode =
  u_lower :: "pystr \<Rightarrow> pystr"
  u_upper :: "pystr \<Rightarrow> pystr"
  ci_equal :: "nat \<Rightarrow> nat \<Rightarrow> bool"
  decimal_value :: "nat \<Rightarrow> nat option"

text \<open>The ASCII part of the database, for concrete runs on ASCII and currency text.\<close>

definition ascii_lower_char :: "nat \<Rightarrow> nat" where
  "ascii_lower_char c = (if 65 \<le> c \<and> c \<le> 90 then c + 32 else c)"

definition ascii_upper_char :: "nat \<Rightarrow> nat" where
  "ascii_upper_char c = (if 97 \<le> c \<and> c \<le> 122 then c - 32 else c)"

definition ascii_unicode :: unicode where
  "ascii_unicode =
     \<lparr>u_lower = map ascii_lower_char, u_upper = map ascii_upper_char,
      ci_equal = (\<lambda>a b. ascii_lower_char a = ascii_lower_char b),
      decimal_value = (\<lambda>c. if 48 \<le> c \<and> c \<le> 57 then Some (c - 48) else None)\<rparr>"

text \<open>The values \<^verbatim>\<open>response.json()\<close> can return.\<close>

datatype json =
  JNull
| JBool bool
| JNum real
| JStr pystr
| JArr "json list"
| JObj "(pystr \<times> json) list"

text \<open>Python truthiness of such a value.\<close>

fun truthy :: "json \<Rightarrow> bool" where
  "truthy JNull = False"
| "truthy (JBool b) = b"
| "truthy (JNum x) = (x \<noteq> 0)"
| "truthy (JStr s) = (s \<noteq> [])"
| "truthy (JArr xs) = (xs \<noteq> [])"
| "truthy (JObj kvs) = (kvs \<noteq> [])"

fun is_list :: "json \<Rightarrow> bool" where
  "is_list (JArr xs) = True"
| "is_list v = False"

text \<open>
  \<open>x.get(key, default)\<close>: only a dictionary has the method; on any other value the
  attribute lookup raises.
\<close>

fun json_get :: "json \<Rightarrow> pystr \<Rightarrow> json \<Rightarrow> py_error + json" where
  "json_get (JObj kvs) key dflt =
     (case map_of kvs key of None \<Rightarrow> Inr dflt | Some v \<Rightarrow> Inr v)"
| "json_get v key dflt = Inl AttributeError"

text \<open>\<open>x or y\<close>.\<close>

definition py_or :: "json \<Rightarrow> json \<Rightarrow> json" where
  "py_or x y = (if truthy x then x else y)"

text \<open>Sequencing of steps that may raise.\<close>

definition bind_err :: "py_error + 'a \<Rightarrow> ('a \<Rightarrow> py_error + 'b) \<Rightarrow> py_error + 'b" where
  "bind_err r f = (case r of Inl e \<Rightarrow> Inl e | Inr x \<Rightarrow> f x)"

section \<open>The answer engine (classes GeminiRESTChat and RAGBot, Rag.py)\<close>

subsection \<open>The fixed replies\<close>

definition msg_timeout :: pystr where
  "msg_timeout =
     [0x231B] @
     ascii '' The request took too long '' @
     [0x2014] @
     ascii '' maybe the servers need a quick coffee break. Please try again soon '' @
     [0x2615]"

definition msg_bad_request :: pystr where
  "msg_bad_request =
     ascii ''Hmm'' @
     [0x2026] @
     ascii '' the request didn'' @
     [0x2019] @
     ascii ''t look quite right. Could you please rephrase that?''"

definition msg_too_many :: pystr where
  "msg_too_many =
     [0x1F605] @
     ascii '' Whoa, too many requests at once! Let'' @
     [0x2019] @
     ascii ''s pause for a second and try again.''"

definition msg_server_error :: pystr where
  "msg_server_error =
     ascii ''The service seems to be having a rough day. Try again after a moment!''"

definition msg_unreachable :: pystr where
  "msg_unreachable =
     [0x1F615] @
     ascii '' I'' @
     [0x2019] @
     ascii ''m having trouble reaching the service right now. Could you try again later?''"

definition msg_connection :: pystr where
  "msg_connection =
     [0x1F310] @
     ascii '' Looks like there'' @
     [0x2019] @
     ascii ''s a little network hiccup. Please check your connection and try again!''"

definition msg_unreadable :: pystr where
  "msg_unreadable =
     [0x1F916] @
     ascii '' The server sent something strange that I couldn'' @
     [0x2019] @
     ascii ''t read. Let'' @
     [0x2019] @
     ascii ''s give it another try!''"

definition msg_no_candidates :: pystr where
  "msg_no_candidates =
     [0x1F647] @
     ascii '' Sorry, I couldn'' @
     [0x2019] @
     ascii ''t process that properly. Mind trying again?''"

definition msg_safety :: pystr where
  "msg_safety =
     ascii ''I cannot generate a response because it may violate content policies.''"

definition msg_trouble :: pystr where
  "msg_trouble =
     ascii ''I apologize, but I'' @
     [0x27] @
     ascii ''m having trouble processing your request right now.''"

definition msg_parse_error :: pystr where
  "msg_parse_error =
     ascii ''An internal error occurred while parsing the response.''"

definition msg_unexpected :: pystr where
  "msg_unexpected =
     ascii ''I encountered an unexpected error. Please try rephrasing your question.''"

definition msg_error_generating :: pystr where
  "msg_error_generating =
     ascii ''Error generating response.''"

definition msg_provide_question :: pystr where
  "msg_provide_question =
     ascii ''Please provide a question.''"

definition msg_not_ready :: pystr where
  "msg_not_ready =
     ascii ''System not ready. Please try again.''"

definition msg_no_proper_response :: pystr where
  "msg_no_proper_response =
     ascii ''I apologize, but I couldn'' @
     [0x27] @
     ascii ''t generate a proper response. Could you rephrase your question?''"

definition msg_invoke_error :: pystr where
  "msg_invoke_error =
     ascii ''I encountered an error processing your request. Please try again later.''"

text \<open>The characters \<^verbatim>\<open>invoke\<close> accepts as the end of a complete sentence.\<close>

definition sentence_end :: pystr where
  "sentence_end = ascii ''.!?'' @ [0x964, 0x964, 0x964]"

subsection \<open>The generation call\<close>

text \<open>
  What \<^verbatim>\<open>requests.post\<close> followed by \<^verbatim>\<open>raise_for_status\<close> does, by the first handler
  of \<^verbatim>\<open>_call_api\<close> it reaches: a timeout; an HTTP error, with the status code of the
  attached response if there is one; a connection error; another exception of
  \<^verbatim>\<open>requests\<close>; any other exception; or a response, whose body parses as JSON or not.
\<close>

datatype http_result =
  Timeout
| HTTPError "int option"
| ConnectionError
| RequestException
| OtherException
| Response "json option"

text \<open>
  \<^verbatim>\<open>_call_api\<close> returns a string in every case. The model keeps apart the strings the
  code writes itself and the text it takes from the service.
\<close>

datatype reply = Fallback pystr | Generated pystr

fun reply_text :: "reply \<Rightarrow> pystr" where
  "reply_text (Fallback s) = s"
| "reply_text (Generated s) = s"

text \<open>
  The generator \<open>p.get("text", "").strip() for p in parts if isinstance(p, dict) and
  p.get("text")\<close>: a truthy text that is not a string has no \<open>strip\<close>.
\<close>

fun part_texts :: "json list \<Rightarrow> py_error + pystr list" where
  "part_texts [] = Inr []"
| "part_texts (JObj kvs # ps) =
     (case map_of kvs (ascii ''text'') of
        None \<Rightarrow> part_texts ps
      | Some v \<Rightarrow>
          if truthy v
          then (case v of
                  JStr s \<Rightarrow> bind_err (part_texts ps) (\<lambda>r. Inr (strip s # r))
                | _ \<Rightarrow> Inl AttributeError)
          else part_texts ps)"
| "part_texts (p # ps) = part_texts ps"

fun join_space :: "pystr list \<Rightarrow> pystr" where
  "join_space [] = []"
| "join_space [x] = x"
| "join_space (x # xs) = x @ [32] @ join_space xs"

definition first_candidate :: "json \<Rightarrow> json" where
  "first_candidate candidates = (case candidates of JArr (c # cs) \<Rightarrow> c | _ \<Rightarrow> JNull)"

definition list_items :: "json \<Rightarrow> json list" where
  "list_items v = (case v of JArr xs \<Rightarrow> xs | _ \<Rightarrow> [])"

text \<open>
  The part of \<^verbatim>\<open>_call_api\<close> after \<^verbatim>\<open>response.json()\<close> has returned \<open>result\<close>, from
  its end: the text of the parts (whose own handler catches what the generator raises),
  the candidate with its finish reason, and the list of candidates.
\<close>

definition parts_reply :: "json \<Rightarrow> reply" where
  "parts_reply parts =
     (if \<not> truthy parts \<or> \<not> is_list parts
      then Fallback msg_trouble
      else (case part_texts (list_items parts) of
              Inl e \<Rightarrow> Fallback msg_parse_error
            | Inr ts \<Rightarrow>
                if strip (join_space ts) = []
                then Fallback msg_trouble
                else Generated (strip (join_space ts))))"

definition candidate_reply :: "unicode \<Rightarrow> json \<Rightarrow> py_error + reply" where
  "candidate_reply L candidate =
     bind_err (json_get candidate (ascii ''finishReason'') JNull) (\<lambda>fr.
       case py_or fr (JStr []) of
         JStr s \<Rightarrow>
           if u_upper L s = ascii ''SAFETY''
           then Inr (Fallback msg_safety)
           else bind_err (json_get candidate (ascii ''content'') JNull) (\<lambda>ct.
                bind_err (json_get (py_or ct (JObj [])) (ascii ''parts'') JNull) (\<lambda>parts.
                  Inr (parts_reply parts)))
       | _ \<Rightarrow> Inl AttributeError)"

definition parse_response :: "unicode \<Rightarrow> json \<Rightarrow> py_error + reply" where
  "parse_response L result =
     bind_err (json_get result (ascii ''candidates'') JNull) (\<lambda>candidates.
       if \<not> truthy candidates \<or> \<not> is_list candidates
       then Inr (Fallback msg_no_candidates)
       else candidate_reply L (py_or (first_candidate candidates) (JObj [])))"

text \<open>The body of \<^verbatim>\<open>_call_api\<close> inside its outer \<^verbatim>\<open>try\<close>, and the method.\<close>

definition call_api_body :: "unicode \<Rightarrow> http_result \<Rightarrow> py_error + reply" where
  "call_api_body L outcome =
     (case outcome of
        Timeout \<Rightarrow> Inr (Fallback msg_timeout)
      | HTTPError None \<Rightarrow> Inl AttributeError
      | HTTPError (Some status_code) \<Rightarrow>
          if status_code = 400 then Inr (Fallback msg_bad_request)
          else if status_code = 429 then Inr (Fallback msg_too_many)
          else if 500 \<le> status_code then Inr (Fallback msg_server_error)
          else Inr (Fallback msg_unreachable)
      | ConnectionError \<Rightarrow> Inr (Fallback msg_connection)
      | RequestException \<Rightarrow> Inr (Fallback msg_unreachable)
      | OtherException \<Rightarrow> Inl OtherError
      | Response None \<Rightarrow> Inr (Fallback msg_unreadable)
      | Response (Some result) \<Rightarrow> parse_response L result)"

definition call_api :: "unicode \<Rightarrow> http_result \<Rightarrow> reply" where
  "call_api L outcome =
     (case call_api_body L outcome of
        Inl e \<Rightarrow> Fallback msg_unexpected
      | Inr r \<Rightarrow> r)"

subsection \<open>\<^verbatim>\<open>RAGBot.invoke\<close>\<close>

text \<open>
  One invocation of \<open>self.chain\<close>: a stage of the chain other than the model raises, or
  the model is called, its \<^verbatim>\<open>_generate\<close> returns what \<^verbatim>\<open>_call_api\<close> returns, and the
  output parser hands that string on. (The handler of \<^verbatim>\<open>_generate\<close>, which would
  answer \<open>msg_error_generating\<close>, never runs: \<^verbatim>\<open>_call_api\<close> catches everything itself.)
\<close>

datatype chain_run = ChainRaises | ChainCalls http_result

text \<open>
  A call \<open>log_error(...)\<close> with so many positional arguments after \<open>self\<close> and these
  keyword arguments, against the signature \<open>log_error(self, function, error,
  context=None)\<close>.
\<close>

definition log_error_call :: "nat \<Rightarrow> string list \<Rightarrow> py_error + unit" where
  "log_error_call positional keywords =
     (let params = [''function'', ''error'', ''context'']
      in if positional \<le> 3 \<and> distinct keywords
            \<and> set keywords \<subseteq> set (drop positional params)
            \<and> set (take 2 params) \<subseteq> set (take positional params) \<union> set keywords
         then Inr () else Inl TypeError)"

text \<open>The checks on the response that \<^verbatim>\<open>invoke\<close> makes before it returns it.\<close>

definition finish_response :: "pystr \<Rightarrow> pystr" where
  "finish_response response =
     (let r1 = (if response = [] \<or> length (strip response) < 3
                then msg_no_proper_response else response);
          r2 = strip r1
      in if r2 \<noteq> [] \<and> 20 < length r2 \<and> last r2 \<notin> set sentence_end
         then r2 @ ascii ''...'' else r2)"

text \<open>
  The body of \<^verbatim>\<open>invoke\<close> inside its \<^verbatim>\<open>try\<close>. \<open>query\<close> is \<open>None\<close> when the argument
  is not a string; \<open>chain_present\<close> says that \<open>self.chain\<close> was set up; \<open>import_ok\<close> that
  the import of the name and goal lookups succeeds (their own failures are caught on
  the spot and replaced by defaults).
\<close>

definition invoke_body ::
  "unicode \<Rightarrow> bool \<Rightarrow> bool \<Rightarrow> chain_run \<Rightarrow> pystr option \<Rightarrow> pystr \<Rightarrow> py_error + pystr" where
  "invoke_body L chain_present import_ok chain query launguage =
     (case query of
        None \<Rightarrow> Inr msg_provide_question
      | Some q \<Rightarrow>
          if q = [] then Inr msg_provide_question
          else if \<not> chain_present then Inr msg_not_ready
          else if \<not> import_ok then Inl ImportError
          else (case chain of
                  ChainRaises \<Rightarrow> Inl OtherError
                | ChainCalls outcome \<Rightarrow>
                    Inr (finish_response (reply_text (call_api L outcome)))))"

definition invoke ::
  "unicode \<Rightarrow> bool \<Rightarrow> bool \<Rightarrow> chain_run \<Rightarrow> pystr option \<Rightarrow> pystr \<Rightarrow> py_error + pystr" where
  "invoke L chain_present import_ok chain query launguage =
     (case invoke_body L chain_present import_ok chain query launguage of
        Inr response \<Rightarrow> Inr response
      | Inl e \<Rightarrow> bind_err (log_error_call 3 []) (\<lambda>u. Inr msg_invoke_error))"

text \<open>The strings \<^verbatim>\<open>_call_api\<close> and \<^verbatim>\<open>invoke\<close> write themselves.\<close>

definition api_fallbacks :: "pystr list" where
  "api_fallbacks =
     [msg_timeout, msg_bad_request, msg_too_many, msg_server_error, msg_unreachable,
      msg_connection, msg_unreadable, msg_no_candidates, msg_safety, msg_trouble,
      msg_parse_error, msg_unexpected]"

definition invoke_fallbacks :: "pystr list" where
  "invoke_fallbacks =
     map finish_response api_fallbacks
       @ [msg_provide_question, msg_not_ready, msg_no_proper_response, msg_invoke_error]"

text \<open>A well-formed answer of the generation service, with one candidate of one part.\<close>

definition answer_body :: "pystr \<Rightarrow> json" where
  "answer_body t =
     JObj [(ascii ''candidates'',
            JArr [JObj [(ascii ''content'', JObj [(ascii ''parts'', JArr [JObj [(ascii ''text'', JStr t)]])]),
                        (ascii ''finishReason'', JStr (ascii ''STOP''))]])]"

text \<open>Two answers of the service without text: a safety block, and no candidates.\<close>

definition safety_body :: json where
  "safety_body =
     JObj [(ascii ''candidates'', JArr [JObj [(ascii ''finishReason'', JStr (ascii ''safety''))]])]"

definition empty_body :: json where
  "empty_body = JObj [(ascii ''candidates'', JArr [])]"

section \<open>The extraction verifier (RAGBot.invoke\_for\_Res, Rag.py)\<close>

subsection \<open>The regular expressions of \<^verbatim>\<open>_extract_price_from_menu\<close>\<close>

text \<open>
  The patterns use literals, greedy repetitions of a character class, sequences,
  alternatives, optional parts and one capturing group. A match is computed as Python's
  backtracking matcher finds it: \<open>matches\<close> lists, in the order the matcher tries them,
  the ways a pattern can match at the start of a text, each with the rest of the text and
  the text of the group; the first way is the one the matcher takes.
\<close>

datatype char_class = Space | Digit | Punct

datatype rx =
  Lit pystr
| Rep char_class nat "nat option"
| Seq "rx list"
| Alt "rx list"
| Opt rx
| Group rx

fun in_class :: "unicode \<Rightarrow> char_class \<Rightarrow> nat \<Rightarrow> bool" where
  "in_class L Space c = is_space c"
| "in_class L Digit c = (decimal_value L c \<noteq> None)"
| "in_class L Punct c = (c = 46 \<or> c = 45 \<or> c = 58)"

text \<open>A literal at the start of a text, under \<^verbatim>\<open>re.IGNORECASE\<close> or not.\<close>

definition lit_prefix :: "unicode \<Rightarrow> bool \<Rightarrow> pystr \<Rightarrow> pystr \<Rightarrow> bool" where
  "lit_prefix L ignorecase s t =
     (length s \<le> length t
      \<and> list_all2 (if ignorecase then ci_equal L else (=)) s (take (length s) t))"

type_synonym match_state = "pystr \<times> pystr option"

fun matches :: "unicode \<Rightarrow> bool \<Rightarrow> rx \<Rightarrow> match_state \<Rightarrow> match_state list" where
  "matches L ic (Lit s) st =
     (if lit_prefix L ic s (fst st) then [(drop (length s) (fst st), snd st)] else [])"
| "matches L ic (Rep c lo hi) st =
     (let n = length (takeWhile (in_class L c) (fst st));
          m = (case hi of None \<Rightarrow> n | Some h \<Rightarrow> min n h)
      in map (\<lambda>k. (drop k (fst st), snd st)) (rev [lo..<Suc m]))"
| "matches L ic (Seq []) st = [st]"
| "matches L ic (Seq (r # rs)) st = concat (map (matches L ic (Seq rs)) (matches L ic r st))"
| "matches L ic (Alt []) st = []"
| "matches L ic (Alt (r # rs)) st = matches L ic r st @ matches L ic (Alt rs) st"
| "matches L ic (Opt r) st = matches L ic r st @ [st]"
| "matches L ic (Group r) st =
     map (\<lambda>st'. (fst st', Some (take (length (fst st) - length (fst st')) (fst st))))
       (matches L ic r st)"

text \<open>
  \<open>re.findall(pattern, text)[0]\<close> for a pattern with one group: the group of the
  leftmost match, \<open>None\<close> when the list of matches is empty.
\<close>

fun first_match :: "unicode \<Rightarrow> bool \<Rightarrow> rx \<Rightarrow> pystr \<Rightarrow> pystr option" where
  "first_match L ic r [] =
     (case matches L ic r ([], None) of [] \<Rightarrow> None | st # sts \<Rightarrow> snd st)"
| "first_match L ic r (c # t) =
     (case matches L ic r (c # t, None) of
        [] \<Rightarrow> first_match L ic r t
      | st # sts \<Rightarrow> snd st)"

text \<open>\<^verbatim>\<open>float\<close> of the text of the group: digits, then perhaps a dot and digits.\<close>

definition digits_value :: "unicode \<Rightarrow> pystr \<Rightarrow> nat" where
  "digits_value L ds =
     foldl (\<lambda>a c. 10 * a + (case decimal_value L c of None \<Rightarrow> 0 | Some d \<Rightarrow> d)) 0 ds"

definition to_float :: "unicode \<Rightarrow> pystr \<Rightarrow> real" where
  "to_float L s =
     (let whole = takeWhile (\<lambda>c. c \<noteq> 46) s;
          fraction = drop (Suc (length whole)) s
      in real (digits_value L whole) + real (digits_value L fraction) / 10 ^ length fraction)"

text \<open>
  The shared tail of the three patterns,
  \<^verbatim>\<open>\s*[.\-:]*\s*(?:CUR|rs\.?|inr)?\s*(\d+(?:\.\d{1,2})?)\<close> with the rupee sign (code
  point 0x20B9) for \<^verbatim>\<open>CUR\<close>, and its second half, which is the fallback pattern.
\<close>

definition currency :: rx where
  "currency = Opt (Alt [Lit [0x20B9], Seq [Lit (ascii ''rs''), Opt (Lit (ascii ''.''))],
                        Lit (ascii ''inr'')])"

definition number :: rx where
  "number = Group (Seq [Rep Digit 1 None, Opt (Seq [Lit (ascii ''.''), Rep Digit 1 (Some 2)])])"

definition price_pattern :: rx where
  "price_pattern = Seq [currency, Rep Space 0 None, number]"

definition price_tail :: "rx list" where
  "price_tail = [Rep Space 0 None, Rep Punct 0 None, Rep Space 0 None, currency,
                 Rep Space 0 None, number]"

definition patterns :: "pystr \<Rightarrow> pystr option \<Rightarrow> rx list" where
  "patterns foodname item_size =
     (let sz = (case item_size of None \<Rightarrow> [] | Some s \<Rightarrow> s)
      in [Seq (Lit foodname # price_tail),
          Seq (Lit foodname # Rep Space 1 None # Lit sz # price_tail),
          Seq (Lit sz # Rep Space 1 None # Lit foodname # price_tail)])"

text \<open>\<open>s.find(sub)\<close>: the first index at which \<open>sub\<close> occurs in \<open>s\<close>.\<close>

fun find_from :: "pystr \<Rightarrow> pystr \<Rightarrow> nat \<Rightarrow> nat option" where
  "find_from sub [] i = (if sub = [] then Some i else None)"
| "find_from sub (c # t) i =
     (if take (length sub) (c # t) = sub then Some i else find_from sub t (Suc i))"

text \<open>The first pattern of the list that matches gives the price.\<close>

fun first_price :: "unicode \<Rightarrow> rx list \<Rightarrow> pystr \<Rightarrow> real option" where
  "first_price L [] menu = None"
| "first_price L (p # ps) menu =
     (case first_match L True p menu of
        Some g \<Rightarrow> Some (to_float L g)
      | None \<Rightarrow> first_price L ps menu)"

definition extract_price_from_menu ::
  "unicode \<Rightarrow> pystr \<Rightarrow> pystr \<Rightarrow> pystr option \<Rightarrow> real option" where
  "extract_price_from_menu L menu_context foodname item_size =
     (let foodname' = strip (u_lower L foodname);
          size' = (case item_size of
                     None \<Rightarrow> None
                   | Some s \<Rightarrow> if s = [] then None else Some (strip (u_lower L s)));
          menu = u_lower L menu_context
      in case first_price L (patterns foodname' size') menu of
           Some price \<Rightarrow> Some price
         | None \<Rightarrow>
             (case find_from foodname' menu 0 of
                None \<Rightarrow> None
              | Some item_pos \<Rightarrow>
                  (case first_match L False price_pattern (take 100 (drop item_pos menu)) of
                     Some g \<Rightarrow> Some (to_float L g)
                   | None \<Rightarrow> None)))"

subsection \<open>\<^verbatim>\<open>invoke_for_Res\<close>\<close>

fun is_dict :: "json \<Rightarrow> bool" where
  "is_dict (JObj kvs) = True"
| "is_dict v = False"

text \<open>\<open>x.strip().lower()\<close> of a value: only a string has the methods.\<close>

fun strip_lower :: "unicode \<Rightarrow> json \<Rightarrow> py_error + pystr" where
  "strip_lower L (JStr s) = Inr (u_lower L (strip s))"
| "strip_lower L v = Inl AttributeError"

text \<open>\<open>verified_price != extracted_price\<close>, a float against a value of the response.\<close>

fun differs :: "real \<Rightarrow> json \<Rightarrow> bool" where
  "differs v (JNum x) = (v \<noteq> x)"
| "differs v (JBool b) = (v \<noteq> (if b then 1 else 0))"
| "differs v j = True"

definition set_item :: "json \<Rightarrow> pystr \<Rightarrow> json \<Rightarrow> json" where
  "set_item d key v = (case d of JObj kvs \<Rightarrow> JObj (AList.update key v kvs) | _ \<Rightarrow> d)"

definition failure :: "pystr \<Rightarrow> json" where
  "failure reason = JObj [(ascii ''status'', JBool False), (ascii ''reason'', JStr reason)]"

text \<open>
  The verification step, inside its own \<^verbatim>\<open>try\<close>. \<open>retriever\<close> is \<open>None\<close> when the
  engine has none; otherwise it maps the search query to the texts of the passages it
  retrieves, or raises. The logger has no method \<open>log_warning\<close>, so the two branches
  that call it raise.
\<close>

definition verify_price ::
  "unicode \<Rightarrow> (pystr \<Rightarrow> py_error + pystr list) option \<Rightarrow> json \<Rightarrow> pystr \<Rightarrow> pystr option
     \<Rightarrow> json \<Rightarrow> py_error + json" where
  "verify_price L retriever response foodname item_size extracted_price =
     (case retriever of
        None \<Rightarrow> bind_err (logger_getattr ''log_warning'') (\<lambda>u. Inr response)
      | Some retrieve \<Rightarrow>
          (let search_query =
                 foodname @ ascii '' '' @ (case item_size of None \<Rightarrow> [] | Some s \<Rightarrow> s)
                   @ ascii '' price''
           in bind_err (retrieve search_query) (\<lambda>docs.
                if docs = [] then Inr response
                else (let menu_context = concat (case docs of
                                d # ds \<Rightarrow> d # map (\<lambda>x. [10] @ x) ds | [] \<Rightarrow> [])
                      in case extract_price_from_menu L menu_context foodname item_size of
                           Some verified_price \<Rightarrow>
                             if differs verified_price extracted_price
                             then Inr (set_item response (ascii ''price'') (JNum verified_price))
                             else Inr response
                         | None \<Rightarrow>
                             bind_err (logger_getattr ''log_warning'') (\<lambda>u. Inr response)))))"

text \<open>
  "STEP 2: PRICE VERIFICATION": the fields read from a response whose status is true,
  and the verification, whose exceptions are caught so that the response goes on
  unchanged.
\<close>

definition read_size :: "unicode \<Rightarrow> json \<Rightarrow> py_error + pystr option" where
  "read_size L sv =
     (if truthy sv then bind_err (strip_lower L sv) (\<lambda>s. Inr (Some s)) else Inr None)"

definition verified_response ::
  "unicode \<Rightarrow> (pystr \<Rightarrow> py_error + pystr list) option \<Rightarrow> json \<Rightarrow> py_error + json" where
  "verified_response L retriever response =
     bind_err (json_get response (ascii ''foodname'') (JStr [])) (\<lambda>fv.
     bind_err (strip_lower L fv) (\<lambda>foodname.
     bind_err (json_get response (ascii ''size'') JNull) (\<lambda>sv.
     bind_err (read_size L sv) (\<lambda>item_size.
     bind_err (json_get response (ascii ''price'') JNull) (\<lambda>extracted_price.
       if foodname \<noteq> [] \<and> extracted_price \<noteq> JNull
       then (case verify_price L retriever response foodname item_size extracted_price of
               Inl verify_error \<Rightarrow> Inr response
             | Inr response' \<Rightarrow> Inr response')
       else Inr response)))))"

text \<open>
  The body of \<^verbatim>\<open>invoke_for_Res\<close> inside its outer \<^verbatim>\<open>try\<close>. \<open>chain_res\<close> is what
  \<open>self.chain_res.invoke\<close> does: it raises, or returns the value its output parser
  built.
\<close>

definition invoke_for_Res_body ::
  "unicode \<Rightarrow> (pystr \<Rightarrow> py_error + pystr list) option \<Rightarrow> bool \<Rightarrow> py_error + json
     \<Rightarrow> pystr option \<Rightarrow> py_error + json" where
  "invoke_for_Res_body L retriever chain_present chain_res query =
     (case query of
        None \<Rightarrow> Inr (failure (ascii ''Please provide a question.''))
      | Some q \<Rightarrow>
          if q = [] then Inr (failure (ascii ''Please provide a question.''))
          else if \<not> chain_present
          then Inr (failure (ascii ''System not ready. Please try again.''))
          else bind_err chain_res (\<lambda>response.
            if \<not> truthy response \<or> \<not> is_dict response
            then Inr (failure (ascii ''I encountered an error processing your request.''))
            else bind_err (json_get response (ascii ''status'') JNull) (\<lambda>status.
              if \<not> truthy status then Inr response
              else verified_response L retriever response)))"

text \<open>
  The method: its outer handler calls \<open>log_error("invokeforRes", e, client_id=...,
  query_length=...)\<close> before it returns a failure.
\<close>

definition invoke_for_Res ::
  "unicode \<Rightarrow> (pystr \<Rightarrow> py_error + pystr list) option \<Rightarrow> bool \<Rightarrow> py_error + json
     \<Rightarrow> pystr option \<Rightarrow> py_error + json" where
  "invoke_for_Res L retriever chain_present chain_res query =
     (case invoke_for_Res_body L retriever chain_present chain_res query of
        Inr response \<Rightarrow> Inr response
      | Inl e \<Rightarrow>
          bind_err (log_error_call 2 [''client_id'', ''query_length''])
            (\<lambda>u. Inr (failure
               (ascii ''I encountered an error processing your request. Please try again.''))))"

text \<open>
  The example of the specification: a menu with the line "Masala Dosa - (rupee sign)90",
  and the model's extraction of the item with price 120, under the keys of the
  response schema.
\<close>

definition dosa_menu :: pystr where
  "dosa_menu = ascii ''Masala Dosa - '' @ [0x20B9] @ ascii ''90''"

definition dosa_extraction :: json where
  "dosa_extraction =
     JObj [(ascii ''status'', JBool True), (ascii ''reason'', JNull),
           (ascii ''food_name'', JStr (ascii ''masala dosa'')), (ascii ''size'', JNull),
           (ascii ''price'', JNum 120), (ascii ''quantity'', JNum 1)]"

definition price_of :: "py_error + json \<Rightarrow> json option" where
  "price_of r = (case r of Inr (JObj kvs) \<Rightarrow> map_of kvs (ascii ''price'') | _ \<Rightarrow> None)"

definition dosa_retriever :: "pystr \<Rightarrow> py_error + pystr list" where
  "dosa_retriever search_query = Inr [dosa_menu]"

section \<open>Properties of the token bucket\<close>

lemma consume_cases:
  fixes b now n
  defines "r \<equiv> min (real_of_int (capacity b)) (tokens b + (now - last_refill b) * refill_rate b)"
  shows "consume b now n =
           (if of_int n \<le> r
            then (b\<lparr>tokens := r - of_int n, last_refill := now\<rparr>, True)
            else (b\<lparr>tokens := r, last_refill := now\<rparr>, False))"
  unfolding consume_def Let_def r_def by simp

lemma consume_refill_bounds:
  assumes "0 \<le> capacity b" "0 \<le> refill_rate b" "0 \<le> tokens b" "last_refill b \<le> now" "0 \<le> n"
  shows "0 \<le> tokens (fst (consume b now n))"
    and "tokens (fst (consume b now n)) \<le> of_int (capacity b)"
proof -
  define r where "r = min (real_of_int (capacity b)) (tokens b + (now - last_refill b) * refill_rate b)"
  have "0 \<le> (now - last_refill b) * refill_rate b"
    using assms by simp
  then have r0: "0 \<le> r"
    using assms by (simp add: r_def)
  have rc: "r \<le> of_int (capacity b)"
    by (simp add: r_def)
  have n0: "(0::real) \<le> of_int n"
    using assms(5) by simp
  have c: "consume b now n =
           (if of_int n \<le> r
            then (b\<lparr>tokens := r - of_int n, last_refill := now\<rparr>, True)
            else (b\<lparr>tokens := r, last_refill := now\<rparr>, False))"
    unfolding r_def by (rule consume_cases)
  show "0 \<le> tokens (fst (consume b now n))"
    using r0 by (cases "of_int n \<le> r") (simp_all add: c)
  show "tokens (fst (consume b now n)) \<le> of_int (capacity b)"
    using rc n0 by (cases "of_int n \<le> r") (simp_all add: c)
qed

lemma consume_fields:
  "capacity (fst (consume b now n)) = capacity b"
  "refill_rate (fst (consume b now n)) = refill_rate b"
  "last_refill (fst (consume b now n)) = now"
  by (simp_all add: consume_def Let_def)

lemma consume_calls_bounds:
  assumes "0 \<le> capacity b" "0 \<le> refill_rate b" "0 \<le> tokens b"
    and "sorted (last_refill b # map fst cs)" "\<forall>c\<in>set cs. 0 \<le> snd c"
  shows "\<forall>b'\<in>set (consume_calls b cs). 0 \<le> tokens b' \<and> tokens b' \<le> of_int (capacity b)"
  using assms
proof (induction cs arbitrary: b)
  case Nil
  then show ?case by simp
next
  case (Cons c cs)
  let ?b = "fst (consume b (fst c) (snd c))"
  have t: "last_refill b \<le> fst c" and n: "0 \<le> snd c"
    using Cons.prems by simp_all
  have lo: "0 \<le> tokens ?b" and hi: "tokens ?b \<le> of_int (capacity b)"
    using consume_refill_bounds [OF Cons.prems(1-3) t n] by simp_all
  have "sorted (last_refill ?b # map fst cs)"
    using Cons.prems(4) by (simp add: consume_fields)
  moreover have "\<forall>c\<in>set cs. 0 \<le> snd c"
    using Cons.prems(5) by simp
  ultimately have "\<forall>b'\<in>set (consume_calls ?b cs). 0 \<le> tokens b' \<and> tokens b' \<le> of_int (capacity ?b)"
    using Cons.IH [of ?b] Cons.prems(1,2) lo by (simp add: consume_fields)
  then show ?case
    using lo hi by (simp add: Let_def consume_fields)
qed

lemma consume_False_refill_only:
  assumes "\<not> snd (consume b now n)"
  shows "tokens (fst (consume b now n)) =
       min (of_int (capacity b)) (tokens b + (now - last_refill b) * refill_rate b)"
proof -
  define r where "r = min (real_of_int (capacity b)) (tokens b + (now - last_refill b) * refill_rate b)"
  have c: "consume b now n =
           (if of_int n \<le> r
            then (b\<lparr>tokens := r - of_int n, last_refill := now\<rparr>, True)
            else (b\<lparr>tokens := r, last_refill := now\<rparr>, False))"
    unfolding r_def by (rule consume_cases)
  have "tokens (fst (consume b now n)) = r"
    using assms by (cases "of_int n \<le> r") (simp_all add: c)
  then show ?thesis by (simp only: r_def)
qed

text \<open>
  Claim C7, as amended. A bucket built by the constructor with a non-negative capacity and
  refill rate, and called with non-negative arguments at clock readings that never go
  back, keeps its token count between zero and its capacity after every call. A call of
  \<open>consume\<close> that returns false, on any bucket, leaves exactly the refilled count (capped
  at the capacity) and subtracts nothing.
\<close>

theorem token_bucket_bounds:
  assumes "0 \<le> cap" and "0 \<le> rate"
    and "sorted (t0 # map fst cs)" and "\<forall>c\<in>set cs. 0 \<le> snd c"
  shows "(\<forall>b'\<in>set (consume_calls (TokenBucket_init cap rate t0) cs).
            0 \<le> tokens b' \<and> tokens b' \<le> of_int cap)
       \<and> (\<forall>b now n. \<not> snd (consume b now n) \<longrightarrow>
            tokens (fst (consume b now n)) =
              min (of_int (capacity b)) (tokens b + (now - last_refill b) * refill_rate b))"
proof -
  let ?b = "TokenBucket_init cap rate t0"
  have "\<forall>b'\<in>set (consume_calls ?b cs). 0 \<le> tokens b' \<and> tokens b' \<le> of_int (capacity ?b)"
    using assms by (intro consume_calls_bounds) (simp_all add: TokenBucket_init_def)
  then show ?thesis
    using consume_False_refill_only by (simp add: TokenBucket_init_def)
qed

theorem token_bucket_bounds_witness:
  "tokens (last (consume_calls (TokenBucket_init 2 1 0) [(0, 1), (0, 1), (0, 1), (1, 1)])) = 0
   \<and> list_all (\<lambda>b. 0 \<le> tokens b \<and> tokens b \<le> 2)
        (consume_calls (TokenBucket_init 2 1 0) [(0, 1), (0, 1), (0, 1), (1, 1)])"
  using token_bucket_bounds [of 2 1 0 "[(0, 1), (0, 1), (0, 1), (1, 1)]"]
  by (simp add: consume_def TokenBucket_init_def Let_def)

text \<open>
  Claim C7 as stated fails for arbitrary arguments and call times: a negative argument
  lifts the count above the capacity, and a clock reading earlier than the last refill
  drives it below zero.
\<close>

theorem token_bucket_bounds_counterexample:
  "of_int (capacity (TokenBucket_init 10 5 0))
     < tokens (fst (consume (TokenBucket_init 10 5 0) 0 (- 5)))
   \<and> tokens (fst (consume (fst (consume (TokenBucket_init 10 5 0) 0 10)) (- 1) 1)) < 0"
  by (simp add: consume_def TokenBucket_init_def Let_def)

section \<open>Properties of the sliding window counter\<close>

lemma add_all_snoc: "add_all c (ts @ [t]) = add_request (add_all c ts) t"
  by (induction ts arbitrary: c) simp_all

lemma add_request_fields:
  "window_size (add_request c t) = window_size c"
  "request (add_request c t) = dropWhile (\<lambda>x. x < t - of_int (window_size c)) (request c @ [t])"
  by (simp_all add: add_request_def cleanup_def Let_def)

lemma add_all_window: "window_size (add_all c ts) = window_size c"
  by (induction ts arbitrary: c) (simp_all add: add_request_fields)

lemma add_all_suffix:
  assumes "sorted ts" "\<forall>x\<in>set ts. x \<le> t"
  shows "\<exists>ys. ts = ys @ request (add_all (SlidingWindowCounter_init w) ts)
              \<and> (\<forall>y\<in>set ys. y < t - of_int w)"
  using assms
proof (induction ts arbitrary: t rule: rev_induct)
  case Nil
  then show ?case by (simp add: SlidingWindowCounter_init_def)
next
  case (snoc x ts)
  let ?c = "add_all (SlidingWindowCounter_init w) ts"
  let ?P = "\<lambda>y. y < x - of_int w"
  have s: "sorted ts" and le: "\<forall>y\<in>set ts. y \<le> x" and xt: "x \<le> t"
    using snoc.prems by (simp_all add: sorted_append)
  obtain ys where ys: "ts = ys @ request ?c" and old: "\<forall>y\<in>set ys. y < x - of_int w"
    using snoc.IH [OF s le] by blast
  have w: "window_size ?c = w"
    by (simp add: add_all_window SlidingWindowCounter_init_def)
  have q: "request (add_all (SlidingWindowCounter_init w) (ts @ [x])) = dropWhile ?P (request ?c @ [x])"
    by (simp add: add_all_snoc add_request_fields w)
  have "ts @ [x] = (ys @ takeWhile ?P (request ?c @ [x])) @ dropWhile ?P (request ?c @ [x])"
    using ys by (metis append.assoc takeWhile_dropWhile_id)
  moreover have "\<forall>y\<in>set (ys @ takeWhile ?P (request ?c @ [x])). y < t - of_int w"
  proof
    fix y assume "y \<in> set (ys @ takeWhile ?P (request ?c @ [x]))"
    then have "y < x - of_int w"
      using old by (auto dest: set_takeWhileD)
    then show "y < t - of_int w" using xt by simp
  qed
  ultimately show ?case
    unfolding q by blast
qed

lemma sorted_dropWhile_filter:
  fixes c :: real
  shows "sorted ts \<Longrightarrow> dropWhile (\<lambda>x. x < c) ts = filter (\<lambda>x. c \<le> x) ts"
proof (induction ts)
  case Nil
  then show ?case by simp
next
  case (Cons a ts)
  show ?case
  proof (cases "a < c")
    case True
    then show ?thesis using Cons by simp
  next
    case False
    then have "\<forall>x\<in>set ts. c \<le> x" using Cons.prems by auto
    then have "filter (\<lambda>x. c \<le> x) ts = ts" by simp
    then show ?thesis using False by simp
  qed
qed

text \<open>
  Claim C4, as amended. When the events are recorded in non-decreasing time order and
  the query time is not earlier than any of them, \<open>get_count\<close> returns the number of
  recorded events in the closed interval \<open>[t - w, t]\<close>: an event exactly \<open>w\<close> seconds
  old is still counted.
\<close>

theorem get_count_closed_window:
  assumes "sorted ts" and "\<forall>x\<in>set ts. x \<le> t"
  shows "snd (get_count (add_all (SlidingWindowCounter_init w) ts) t)
           = events_in_closed_window w t ts"
proof -
  let ?c = "add_all (SlidingWindowCounter_init w) ts"
  let ?P = "\<lambda>y. y < t - of_int w"
  obtain ys where ys: "ts = ys @ request ?c" and old: "\<forall>y\<in>set ys. ?P y"
    using add_all_suffix [OF assms] by blast
  have w: "window_size ?c = w"
    by (simp add: add_all_window SlidingWindowCounter_init_def)
  have "dropWhile ?P ts = dropWhile ?P (request ?c)"
    using old by (subst ys) (simp add: dropWhile_append2)
  then have "dropWhile ?P (request ?c) = filter (\<lambda>x. t - of_int w \<le> x) ts"
    using sorted_dropWhile_filter [OF assms(1)] by simp
  moreover have "filter (\<lambda>x. t - of_int w \<le> x) ts = filter (\<lambda>x. t - of_int w \<le> x \<and> x \<le> t) ts"
    using assms(2) by (intro filter_cong) auto
  ultimately show ?thesis
    by (simp add: get_count_def cleanup_def Let_def w events_in_closed_window_def)
qed

theorem get_count_closed_window_witness:
  "snd (get_count (add_all (SlidingWindowCounter_init 60) [0, 30, 60, 100]) 100) = 2
   \<and> events_in_closed_window 60 100 [0, 30, 60, 100] = 2"
  using get_count_closed_window [of "[0, 30, 60, 100]" 100 60]
  by (simp add: events_in_closed_window_def)

text \<open>
  Claim C4 as stated fails at the left boundary (an event exactly at \<open>t - w\<close> is kept
  and counted) and for events recorded out of time order (eviction stops at the first
  entry that is young enough).
\<close>

theorem get_count_half_open_counterexample:
  "snd (get_count (add_all (SlidingWindowCounter_init 60) [0]) 60)
     \<noteq> events_in_half_open_window 60 60 [0]
   \<and> snd (get_count (add_all (SlidingWindowCounter_init 60) [100, 0]) 100)
     \<noteq> events_in_half_open_window 60 100 [100, 0]"
  by (simp add: get_count_def cleanup_def add_request_def SlidingWindowCounter_init_def
      events_in_half_open_window_def Let_def)

section \<open>Properties of the rate limiter\<close>

subsection \<open>The per-minute limit is shadowed by the suspicious threshold\<close>

lemma sweep_stage_allows:
  "snd (sweep_stage rl t) = Inr d \<Longrightarrow> d = (True, None, None)"
  by (auto simp: sweep_stage_def split: if_splits prod.splits sum.splits)

lemma threshold_stage_not_per_minute:
  assumes "suspicious_requests_per_minitue (config rl) \<le> request_per_minitue (config rl)"
  shows "snd (threshold_stage rl u t m h d) \<noteq> Inr per_minute_rejection"
proof
  assume a: "snd (threshold_stage rl u t m h d) = Inr per_minute_rejection"
  show False
  proof (cases "suspicious_requests_per_minitue (config rl) < int m")
    case True
    then show False using a
      by (auto simp: threshold_stage_def Let_def split: sum.splits)
  next
    case False
    then have "\<not> request_per_minitue (config rl) < int m" using assms by simp
    then show False using a False
      by (auto simp: threshold_stage_def dest: sweep_stage_allows split: if_splits)
  qed
qed

lemma window_stage_not_per_minute:
  assumes "suspicious_requests_per_minitue (config rl) \<le> request_per_minitue (config rl)"
  shows "snd (window_stage rl u t) \<noteq> Inr per_minute_rejection"
  using assms
  by (auto simp: window_stage_def Let_def threshold_stage_not_per_minute split: sum.splits prod.splits)

lemma token_stage_not_per_minute:
  assumes "suspicious_requests_per_minitue (config rl) \<le> request_per_minitue (config rl)"
  shows "snd (token_stage clk rl u t) \<noteq> Inr per_minute_rejection"
  using assms
  by (auto simp: token_stage_def Let_def window_stage_not_per_minute split: sum.splits prod.splits)

lemma burst_stage_not_per_minute:
  assumes "suspicious_requests_per_minitue (config rl) \<le> request_per_minitue (config rl)"
  shows "snd (burst_stage clk rl u t) \<noteq> Inr per_minute_rejection"
  using assms
  by (auto simp: burst_stage_def Let_def token_stage_not_per_minute split: sum.splits prod.splits)

lemma length_stage_not_per_minute:
  assumes "suspicious_requests_per_minitue (config rl) \<le> request_per_minitue (config rl)"
  shows "snd (length_stage clk rl u t m) \<noteq> Inr per_minute_rejection"
  using assms
  by (auto simp: length_stage_def Let_def burst_stage_not_per_minute split: sum.splits prod.splits)

lemma duplicate_stage_not_per_minute:
  assumes "suspicious_requests_per_minitue (config rl) \<le> request_per_minitue (config rl)"
  shows "snd (duplicate_stage H clk rl u t m) \<noteq> Inr per_minute_rejection"
  using assms
  by (auto simp: duplicate_stage_def Let_def length_stage_not_per_minute split: sum.splits prod.splits)

lemma config_init_trackers: "config (init_trackers clk rl u) = config rl"
  by (simp add: init_trackers_def Let_def)

lemma blocked_stage_not_per_minute:
  assumes "suspicious_requests_per_minitue (config rl) \<le> request_per_minitue (config rl)"
  shows "snd (blocked_stage H clk rl u t m) \<noteq> Inr per_minute_rejection"
  using assms
  by (auto simp: blocked_stage_def Let_def duplicate_stage_not_per_minute config_init_trackers split: option.splits)

text \<open>
  Claim C10. Under the default configuration (suspicious threshold 100, per-minute limit
  300) no call of \<open>check_rate_limit\<close>, from any limiter state and for any sender and
  message, returns the per-minute rejection: the suspicious-threshold comparison runs
  first on the same minute count, so the per-minute comparison is only reached with a
  count of at most 100.
\<close>

theorem per_minute_rejection_unreachable:
  assumes "config rl = RateLimitConfig_default"
  shows "snd (check_rate_limit H clk rl phone_number client_id message)
           \<noteq> Inr per_minute_rejection"
proof -
  have "suspicious_requests_per_minitue (config rl) \<le> request_per_minitue (config rl)"
    using assms by (simp add: RateLimitConfig_default_def)
  then show ?thesis
    by (auto simp: check_rate_limit_def Let_def blocked_stage_not_per_minute split: sum.splits)
qed

theorem per_minute_rejection_unreachable_witness:
  "snd (check_rate_limit plain_lib (at_time 0) (RateLimiter_init RateLimitConfig_default 0)
          ''111'' ''clientA'' ''hi'') \<noteq> Inr per_minute_rejection"
  using per_minute_rejection_unreachable
    [of "RateLimiter_init RateLimitConfig_default 0" plain_lib "at_time 0" "''111''" "''clientA''" "''hi''"]
  by (simp add: RateLimiter_init_def)

subsection \<open>Concrete runs\<close>

lemmas limiter_defs = check_rate_limit_def blocked_stage_def duplicate_stage_def length_stage_def
      burst_stage_def token_stage_def window_stage_def threshold_stage_def sweep_stage_def
      cleanup_old_data_def init_trackers_def is_duplicate_def is_blocked_def dict_get_def dict_incr_def
      counter_add_def counter_count_def pop_keys_def logger_getattr_def logger_attributes_def
      get_user_id_def plain_lib_def at_time_def RateLimiter_init_def RateLimitConfig_default_def
      TokenBucket_init_def SlidingWindowCounter_init_def consume_def get_count_def add_request_def
      cleanup_def get_wait_time_def unblock_user_def reset_user_limits_def py_int_def
      has_constructor_stats_def Let_def

text \<open>
  Claim C1 fails on the code. First run, default configuration: a sender's over-long
  message is rejected and leaves that sender with trackers but an empty day counter; the
  next admitted message of anyone, more than 300 seconds after the limiter was built,
  triggers the sweep, which finds the inactive sender and then reads the attribute
  \<open>logging\<close> that the logger does not have. Second run, burst capacity 1: the second
  message within the burst window reaches the burst rejection, whose counter update
  uses the key \<open>burst_voilations\<close>, absent from the statistics dictionary.
\<close>

theorem check_rate_limit_raises:
  "snd (run_events plain_lib (RateLimiter_init RateLimitConfig_default 0)
          [Check 0 ''111'' ''clientA'' (replicate 4001 (CHR ''x'')),
           Check 301 ''222'' ''clientA'' ''hi''])
     = [Inr (False, Some ''Message too long. Please keep it under 2000 character.'', None),
        Inl AttributeError]
   \<and> snd (run_events plain_lib
            (RateLimiter_init (RateLimitConfig_default\<lparr>brust_size := 1\<rparr>) 0)
            [Check 0 ''111'' ''clientA'' ''a'', Check 1 ''111'' ''clientA'' ''b''])
     = [Inr (True, None, None), Inl KeyError]"
  by (simp add: limiter_defs)

text \<open>
  Claim C6 fails on the code at the burst check. With burst capacity 2, the third message
  of a sender within the window passes the blocked, duplicate and length checks and
  fails the burst check; the call then raises \<open>KeyError\<close> instead of returning the
  burst rejection.
\<close>

theorem burst_check_raises:
  "snd (run_events plain_lib
            (RateLimiter_init (RateLimitConfig_default\<lparr>brust_size := 2\<rparr>) 0)
            [Check 0 ''111'' ''clientA'' ''a'', Check 1 ''111'' ''clientA'' ''b'',
             Check 2 ''111'' ''clientA'' ''c''])
     = [Inr (True, None, None), Inr (True, None, None), Inl KeyError]"
  by (simp add: limiter_defs)

subsection \<open>Duplicate suppression\<close>

lemma dict_incr_present:
  "k \<in> set (map fst d) \<Longrightarrow> \<exists>v. map_of d k = Some v \<and> dict_incr d k = Inr (AList.update k (v + 1) d)"
  by (cases "map_of d k") (auto simp: dict_incr_def map_of_eq_None_iff)

lemma keys_update_present: "k \<in> set (map fst d) \<Longrightarrow> map fst (AList.update k v d) = map fst d"
  by (induction d) auto

lemma is_duplicate_cong:
  "last_messages rl' = last_messages rl \<Longrightarrow> config rl' = config rl
     \<Longrightarrow> is_duplicate rl' u t h = is_duplicate rl u t h"
  by (simp add: is_duplicate_def split: option.splits)

lemma init_trackers_frame:
  "config (init_trackers clk rl u) = config rl"
  "last_messages (init_trackers clk rl u) = last_messages rl"
  "stats (init_trackers clk rl u) = stats rl"
  "blocked_users (init_trackers clk rl u) = blocked_users rl"
  by (simp_all add: init_trackers_def Let_def)

lemma is_duplicate_frame:
  "is_duplicate (init_trackers clk rl u) u' t h = is_duplicate rl u' t h"
  "is_duplicate (rl\<lparr>blocked_users := b\<rparr>) u' t h = is_duplicate rl u' t h"
  "is_duplicate (rl\<lparr>stats := s\<rparr>) u' t h = is_duplicate rl u' t h"
  by (rule is_duplicate_cong; simp add: init_trackers_frame)+

lemma stats_init_trackers: "stats (init_trackers clk rl u) = stats rl"
  by (simp add: init_trackers_def Let_def)

lemma duplicate_rejected:
  assumes k: "has_constructor_stats rl"
    and nb: "\<not> is_blocked rl (get_user_id H p c) (t_check clk)"
    and dup: "is_duplicate rl (get_user_id H p c) (t_check clk) (md5_hexdigest H (lower_strip H m))"
  shows "snd (check_rate_limit H clk rl p c m) = Inr duplicate_rejection"
proof -
  let ?u = "get_user_id H p c"
  obtain v where v: "dict_incr (stats rl) ''total_requests'' = Inr (AList.update ''total_requests'' (v + 1) (stats rl))"
    using dict_incr_present [of "''total_requests''" "stats rl"] k
    by (auto simp: has_constructor_stats_def)
  let ?s1 = "AList.update ''total_requests'' (v + 1) (stats rl)"
  have "''spam_detected'' \<in> set (map fst ?s1)"
    using k by (simp add: keys_update_present has_constructor_stats_def)
  then obtain s2 where s2: "dict_incr ?s1 ''spam_detected'' = Inr s2"
    using dict_incr_present [of "''spam_detected''" ?s1] by blast
  have d: "\<And>rl'. is_duplicate rl' ?u (t_check clk) (md5_hexdigest H (lower_strip H m)) \<Longrightarrow> stats rl' = ?s1
     \<Longrightarrow> snd (duplicate_stage H clk rl' ?u (t_check clk) m) = Inr duplicate_rejection"
    by (simp add: duplicate_stage_def Let_def s2)
  show ?thesis
    using nb dup
    by (auto simp: check_rate_limit_def Let_def v blocked_stage_def is_blocked_def
        d is_duplicate_frame stats_init_trackers split: option.splits)
qed

lemma threshold_stage_not_duplicate:
  "snd (threshold_stage rl u t m h d) \<noteq> Inr duplicate_rejection"
  by (auto simp: threshold_stage_def Let_def dest: sweep_stage_allows split: if_splits sum.splits)

lemma window_stage_not_duplicate:
  "snd (window_stage rl u t) \<noteq> Inr duplicate_rejection"
  by (auto simp: window_stage_def Let_def threshold_stage_not_duplicate split: sum.splits prod.splits)

lemma token_stage_not_duplicate:
  "snd (token_stage clk rl u t) \<noteq> Inr duplicate_rejection"
  by (auto simp: token_stage_def Let_def window_stage_not_duplicate split: sum.splits prod.splits)

lemma burst_stage_not_duplicate:
  "snd (burst_stage clk rl u t) \<noteq> Inr duplicate_rejection"
  by (auto simp: burst_stage_def Let_def token_stage_not_duplicate split: sum.splits prod.splits)

lemma length_stage_not_duplicate:
  "snd (length_stage clk rl u t m) \<noteq> Inr duplicate_rejection"
  by (auto simp: length_stage_def Let_def burst_stage_not_duplicate split: sum.splits prod.splits)

lemma not_duplicate_not_rejected:
  assumes "\<not> is_duplicate rl (get_user_id H p c) (t_check clk) (md5_hexdigest H (lower_strip H m))"
  shows "snd (check_rate_limit H clk rl p c m) \<noteq> Inr duplicate_rejection"
  using assms
  by (auto simp: check_rate_limit_def Let_def blocked_stage_def duplicate_stage_def
      is_duplicate_frame length_stage_not_duplicate split: sum.splits option.splits)

lemma wlm_fields:
  "config (with_last_messages x rl) = config rl"
  "token_bucket (with_last_messages x rl) = token_bucket rl"
  "minitue_counters (with_last_messages x rl) = minitue_counters rl"
  "hour_counters (with_last_messages x rl) = hour_counters rl"
  "day_counters (with_last_messages x rl) = day_counters rl"
  "burst_tracker (with_last_messages x rl) = burst_tracker rl"
  "blocked_users (with_last_messages x rl) = blocked_users rl"
  "stats (with_last_messages x rl) = stats rl"
  "cleanup_interval (with_last_messages x rl) = cleanup_interval rl"
  "last_cleanup (with_last_messages x rl) = last_cleanup rl"
  "last_messages (with_last_messages x rl) = x"
  by (simp_all add: with_last_messages_def)

lemma wlm_updates:
  "(with_last_messages x rl)\<lparr>token_bucket := tb\<rparr> = with_last_messages x (rl\<lparr>token_bucket := tb\<rparr>)"
  "(with_last_messages x rl)\<lparr>minitue_counters := mc\<rparr> = with_last_messages x (rl\<lparr>minitue_counters := mc\<rparr>)"
  "(with_last_messages x rl)\<lparr>hour_counters := hc\<rparr> = with_last_messages x (rl\<lparr>hour_counters := hc\<rparr>)"
  "(with_last_messages x rl)\<lparr>day_counters := dc\<rparr> = with_last_messages x (rl\<lparr>day_counters := dc\<rparr>)"
  "(with_last_messages x rl)\<lparr>burst_tracker := bt\<rparr> = with_last_messages x (rl\<lparr>burst_tracker := bt\<rparr>)"
  "(with_last_messages x rl)\<lparr>blocked_users := bu\<rparr> = with_last_messages x (rl\<lparr>blocked_users := bu\<rparr>)"
  "(with_last_messages x rl)\<lparr>stats := s\<rparr> = with_last_messages x (rl\<lparr>stats := s\<rparr>)"
  "(with_last_messages x rl)\<lparr>last_messages := y\<rparr> = with_last_messages y rl"
  by (simp_all add: with_last_messages_def)

lemma sweep_stage_wlm:
  "snd (sweep_stage (with_last_messages x rl) t) = snd (sweep_stage rl t)"
  by (simp add: with_last_messages_def sweep_stage_def cleanup_old_data_def Let_def split: prod.splits sum.splits)

lemma threshold_stage_wlm:
  "snd (threshold_stage (with_last_messages x rl) u t m h d) = snd (threshold_stage rl u t m h d)"
  by (simp add: threshold_stage_def Let_def wlm_fields wlm_updates sweep_stage_wlm split: sum.splits)

lemma window_stage_wlm:
  "snd (window_stage (with_last_messages x rl) u t) = snd (window_stage rl u t)"
  by (simp add: window_stage_def Let_def wlm_fields wlm_updates threshold_stage_wlm split: sum.splits prod.splits)

lemma token_stage_wlm:
  "snd (token_stage clk (with_last_messages x rl) u t) = snd (token_stage clk rl u t)"
  by (simp add: token_stage_def Let_def wlm_fields wlm_updates window_stage_wlm split: sum.splits)

lemma burst_stage_wlm:
  "snd (burst_stage clk (with_last_messages x rl) u t) = snd (burst_stage clk rl u t)"
  by (simp add: burst_stage_def Let_def wlm_fields wlm_updates token_stage_wlm split: sum.splits)

lemma length_stage_wlm:
  "snd (length_stage clk (with_last_messages x rl) u t m) = snd (length_stage clk rl u t m)"
  by (simp add: length_stage_def wlm_fields burst_stage_wlm)

lemma init_trackers_wlm:
  "init_trackers clk (with_last_messages x rl) u = with_last_messages x (init_trackers clk rl u)"
  by (auto simp: init_trackers_def Let_def with_last_messages_def)

lemma duplicate_stage_passed:
  assumes "\<not> is_duplicate rl u t (md5_hexdigest H (lower_strip H m))"
  shows "snd (duplicate_stage H clk rl u t m) = snd (length_stage clk rl u t m)"
proof -
  have "\<And>y. rl\<lparr>last_messages := y\<rparr> = with_last_messages y rl"
    by (simp add: with_last_messages_def)
  then show ?thesis
    using assms by (simp add: duplicate_stage_def Let_def length_stage_wlm)
qed

lemma is_duplicate_forgotten:
  "last_messages r = AList.delete u l \<Longrightarrow> \<not> is_duplicate r u t h"
  by (simp add: is_duplicate_def AList.delete_conv')

lemma after_block_passed:
  assumes "\<not> is_duplicate rl u t (md5_hexdigest H (lower_strip H m))"
    and "last_messages r = last_messages rl" and "config r = config rl"
  shows "snd (duplicate_stage H clk
                (init_trackers clk (with_last_messages (AList.delete u (last_messages rl)) r) u) u t m)
         = snd (duplicate_stage H clk (init_trackers clk r u) u t m)"
proof -
  let ?d = "AList.delete u (last_messages rl)"
  have "\<not> is_duplicate (with_last_messages ?d (init_trackers clk r u)) u t
            (md5_hexdigest H (lower_strip H m))"
    by (rule is_duplicate_forgotten [of _ u "last_messages rl"]) (simp add: wlm_fields)
  then have l: "snd (duplicate_stage H clk (with_last_messages ?d (init_trackers clk r u)) u t m)
        = snd (length_stage clk (init_trackers clk r u) u t m)"
    by (simp add: duplicate_stage_passed length_stage_wlm)
  have "is_duplicate (init_trackers clk r u) u t (md5_hexdigest H (lower_strip H m))
        = is_duplicate rl u t (md5_hexdigest H (lower_strip H m))"
    by (rule is_duplicate_cong) (simp_all add: init_trackers_frame assms)
  then have "snd (duplicate_stage H clk (init_trackers clk r u) u t m)
        = snd (length_stage clk (init_trackers clk r u) u t m)"
    using assms(1) by (simp add: duplicate_stage_passed)
  then show ?thesis
    by (simp add: init_trackers_wlm l)
qed

lemma blocked_stage_passed_duplicate:
  assumes "\<not> is_duplicate rl u t (md5_hexdigest H (lower_strip H m))"
  shows "snd (blocked_stage H clk (with_last_messages (AList.delete u (last_messages rl)) rl) u t m)
         = snd (blocked_stage H clk rl u t m)"
proof (cases "map_of (blocked_users rl) u")
  case None
  then show ?thesis
    using after_block_passed [OF assms, of rl clk] by (simp add: blocked_stage_def wlm_fields)
next
  case (Some unblock_time)
  have "snd (duplicate_stage H clk
                (init_trackers clk (with_last_messages (AList.delete u (last_messages rl))
                   (rl\<lparr>blocked_users := AList.delete u (blocked_users rl)\<rparr>)) u) u t m)
         = snd (duplicate_stage H clk
                (init_trackers clk (rl\<lparr>blocked_users := AList.delete u (blocked_users rl)\<rparr>) u) u t m)"
    by (rule after_block_passed [OF assms]) simp_all
  then show ?thesis
    using Some by (simp add: blocked_stage_def wlm_fields wlm_updates)
qed

lemma check_passed_duplicate:
  assumes "\<not> is_duplicate rl (get_user_id H p c) (t_check clk) (md5_hexdigest H (lower_strip H m))"
  shows "snd (check_rate_limit H clk
                (rl\<lparr>last_messages := AList.delete (get_user_id H p c) (last_messages rl)\<rparr>) p c m)
         = snd (check_rate_limit H clk rl p c m)"
proof (cases "dict_incr (stats rl) ''total_requests''")
  case (Inl e)
  then show ?thesis by (simp add: check_rate_limit_def Let_def)
next
  case (Inr s)
  let ?u = "get_user_id H p c"
  have nd: "\<not> is_duplicate (rl\<lparr>stats := s\<rparr>) ?u (t_check clk) (md5_hexdigest H (lower_strip H m))"
    using assms by (simp add: is_duplicate_frame)
  have "rl\<lparr>last_messages := AList.delete ?u (last_messages rl), stats := s\<rparr>
        = with_last_messages (AList.delete ?u (last_messages (rl\<lparr>stats := s\<rparr>))) (rl\<lparr>stats := s\<rparr>)"
    by (simp add: with_last_messages_def)
  then show ?thesis
    using blocked_stage_passed_duplicate [OF nd, of clk] Inr
    by (simp add: check_rate_limit_def Let_def)
qed

lemma blocked_rejected:
  assumes k: "has_constructor_stats rl"
    and b: "map_of (blocked_users rl) (get_user_id H p c) = Some unblock_time"
    and t: "t_check clk < unblock_time"
  shows "snd (check_rate_limit H clk rl p c m)
           = Inr (blocked_rejection (py_int (unblock_time - t_check clk)))"
proof -
  obtain v where v: "dict_incr (stats rl) ''total_requests''
                       = Inr (AList.update ''total_requests'' (v + 1) (stats rl))"
    using dict_incr_present [of "''total_requests''" "stats rl"] k
    by (auto simp: has_constructor_stats_def)
  show ?thesis
    using b t by (simp add: check_rate_limit_def Let_def v blocked_stage_def)
qed

lemma limiter_after_hello_eval:
  "has_constructor_stats limiter_after_hello"
  "map_of (last_messages limiter_after_hello) (get_user_id plain_lib ''111'' ''clientA'')
     = Some (md5_hexdigest plain_lib (lower_strip plain_lib ''hello''), 0)"
  "\<not> is_blocked limiter_after_hello (get_user_id plain_lib ''111'' ''clientA'') t"
  "duplicate_message_window (config limiter_after_hello) = 10"
  by (simp_all add: limiter_after_hello_def limiter_defs)

lemma limiter_blocked_eval:
  "has_constructor_stats limiter_blocked"
  "map_of (last_messages limiter_blocked) (get_user_id plain_lib ''111'' ''clientA'')
     = Some (md5_hexdigest plain_lib (lower_strip plain_lib ''hello''), 1)"
  "map_of (blocked_users limiter_blocked) (get_user_id plain_lib ''111'' ''clientA'') = Some 121"
  by (simp_all add: limiter_blocked_def limiter_defs)

text \<open>
  Claim C9, as amended. Let the last recorded message of an identity have the hash of
  the incoming message. If the identity is not currently blocked and less than the
  duplicate window has elapsed, the check returns the duplicate rejection with the
  30-second hint. If the identity is currently blocked, the check returns the blocked
  rejection instead, with the remaining block time, truncated to whole seconds, as
  hint. If at least the duplicate window has elapsed, the check does not return the
  duplicate rejection, and its outcome is the one it has when no earlier message is on
  record for the identity.
\<close>

theorem duplicate_check:
  assumes "has_constructor_stats rl"
    and "map_of (last_messages rl) (get_user_id H phone_number client_id)
           = Some (md5_hexdigest H (lower_strip H message), t0)"
  shows "(\<not> is_blocked rl (get_user_id H phone_number client_id) (t_check clk)
            \<and> t_check clk - t0 < of_int (duplicate_message_window (config rl))
          \<longrightarrow> snd (check_rate_limit H clk rl phone_number client_id message)
                = Inr duplicate_rejection)
       \<and> (map_of (blocked_users rl) (get_user_id H phone_number client_id) = Some unblock_time
            \<and> t_check clk < unblock_time
          \<longrightarrow> snd (check_rate_limit H clk rl phone_number client_id message)
                = Inr (blocked_rejection (py_int (unblock_time - t_check clk))))
       \<and> (of_int (duplicate_message_window (config rl)) \<le> t_check clk - t0
          \<longrightarrow> snd (check_rate_limit H clk rl phone_number client_id message)
                  \<noteq> Inr duplicate_rejection
              \<and> snd (check_rate_limit H clk rl phone_number client_id message)
                  = snd (check_rate_limit H clk
                      (rl\<lparr>last_messages :=
                           AList.delete (get_user_id H phone_number client_id) (last_messages rl)\<rparr>)
                      phone_number client_id message))"
proof (intro conjI impI)
  assume "\<not> is_blocked rl (get_user_id H phone_number client_id) (t_check clk)
            \<and> t_check clk - t0 < of_int (duplicate_message_window (config rl))"
  then show "snd (check_rate_limit H clk rl phone_number client_id message) = Inr duplicate_rejection"
    using assms by (intro duplicate_rejected) (simp_all add: is_duplicate_def)
next
  assume "map_of (blocked_users rl) (get_user_id H phone_number client_id) = Some unblock_time
            \<and> t_check clk < unblock_time"
  then show "snd (check_rate_limit H clk rl phone_number client_id message)
                = Inr (blocked_rejection (py_int (unblock_time - t_check clk)))"
    using assms(1) by (intro blocked_rejected) simp_all
next
  assume "of_int (duplicate_message_window (config rl)) \<le> t_check clk - t0"
  then have nd: "\<not> is_duplicate rl (get_user_id H phone_number client_id) (t_check clk)
                   (md5_hexdigest H (lower_strip H message))"
    using assms(2) by (simp add: is_duplicate_def)
  show "snd (check_rate_limit H clk rl phone_number client_id message) \<noteq> Inr duplicate_rejection"
    by (rule not_duplicate_not_rejected [OF nd])
  show "snd (check_rate_limit H clk rl phone_number client_id message)
          = snd (check_rate_limit H clk
               (rl\<lparr>last_messages :=
                    AList.delete (get_user_id H phone_number client_id) (last_messages rl)\<rparr>)
               phone_number client_id message)"
    by (rule check_passed_duplicate [OF nd, symmetric])
qed

theorem duplicate_check_witness:
  "snd (check_rate_limit plain_lib (at_time 5) limiter_after_hello ''111'' ''clientA'' ''hello'')
     = Inr duplicate_rejection
   \<and> snd (check_rate_limit plain_lib (at_time 10) limiter_after_hello ''111'' ''clientA'' ''hello'')
     \<noteq> Inr duplicate_rejection
   \<and> snd (check_rate_limit plain_lib (at_time 2) limiter_blocked ''111'' ''clientA'' ''hello'')
     = Inr (blocked_rejection 119)"
proof -
  note e = limiter_after_hello_eval
  note f = limiter_blocked_eval
  have h5: "\<not> is_blocked limiter_after_hello (get_user_id plain_lib ''111'' ''clientA'')
               (t_check (at_time 5))
            \<and> t_check (at_time 5) - 0
                < of_int (duplicate_message_window (config limiter_after_hello))"
    by (simp add: e(3,4) at_time_def)
  have h10: "of_int (duplicate_message_window (config limiter_after_hello))
               \<le> t_check (at_time 10) - 0"
    by (simp add: e(4) at_time_def)
  have h2: "map_of (blocked_users limiter_blocked) (get_user_id plain_lib ''111'' ''clientA'')
              = Some 121 \<and> t_check (at_time 2) < 121"
    by (simp add: f(3) at_time_def)
  have "snd (check_rate_limit plain_lib (at_time 5) limiter_after_hello
               ''111'' ''clientA'' ''hello'') = Inr duplicate_rejection"
    using duplicate_check [where rl = limiter_after_hello and H = plain_lib
          and phone_number = "''111''" and client_id = "''clientA''" and message = "''hello''"
          and ?t0.0 = 0 and clk = "at_time 5", OF e(1) e(2)] h5
    by blast
  moreover have "snd (check_rate_limit plain_lib (at_time 10) limiter_after_hello
               ''111'' ''clientA'' ''hello'') \<noteq> Inr duplicate_rejection"
    using duplicate_check [where rl = limiter_after_hello and H = plain_lib
          and phone_number = "''111''" and client_id = "''clientA''" and message = "''hello''"
          and ?t0.0 = 0 and clk = "at_time 10", OF e(1) e(2)] h10
    by blast
  moreover have "snd (check_rate_limit plain_lib (at_time 2) limiter_blocked
               ''111'' ''clientA'' ''hello'')
             = Inr (blocked_rejection (py_int (121 - t_check (at_time 2))))"
    using duplicate_check [where rl = limiter_blocked and H = plain_lib
          and phone_number = "''111''" and client_id = "''clientA''" and message = "''hello''"
          and ?t0.0 = 1 and clk = "at_time 2" and unblock_time = 121, OF f(1) f(2)] h2
    by blast
  moreover have "py_int (121 - t_check (at_time 2)) = 119"
    by (simp add: py_int_def at_time_def)
  ultimately show ?thesis by simp
qed

text \<open>
  Claim C9 as stated fails for a blocked identity: the blocked check runs first. With
  the suspicious threshold at 1, the second message of a minute is recorded and blocks
  the sender; the same message one second later is rejected as blocked, with the
  remaining block time as hint, not as a duplicate with the 30-second hint.
\<close>

theorem duplicate_check_counterexample:
  "map_of (last_messages (fst (run_events plain_lib
            (RateLimiter_init (RateLimitConfig_default\<lparr>suspicious_requests_per_minitue := 1\<rparr>) 0)
            [Check 0 ''111'' ''clientA'' ''a'', Check 1 ''111'' ''clientA'' ''hello''])))
       (get_user_id plain_lib ''111'' ''clientA'') = Some (''hello'', 1)
   \<and> snd (check_rate_limit plain_lib (at_time 2)
            (fst (run_events plain_lib
               (RateLimiter_init (RateLimitConfig_default\<lparr>suspicious_requests_per_minitue := 1\<rparr>) 0)
               [Check 0 ''111'' ''clientA'' ''a'', Check 1 ''111'' ''clientA'' ''hello'']))
            ''111'' ''clientA'' ''hello'')
     = Inr (False, Some ''Temporary block due to suspicious activity'', Some 119)"
  by (simp add: limiter_defs)

section \<open>Properties of the query cache\<close>

text \<open>The accessor that checks the age returns no entry older than the bound.\<close>

lemma get_cached_query_fresh:
  assumes "snd (get_cached_query H c query max_age_seconds now) = Some e"
  shows "now - entry_timestamp e \<le> of_int max_age_seconds
         \<and> map_of (query_cache c) (sha256_hexdigest H (str_lower H query)) = Some e"
  using assms
  by (auto simp: get_cached_query_def Let_def split: if_splits option.splits)

lemma get_cached_query_evicts:
  assumes "map_of (query_cache c) (sha256_hexdigest H (str_lower H query)) = Some e"
    and "of_int max_age_seconds < now - entry_timestamp e" and "query \<noteq> []"
  shows "snd (get_cached_query H c query max_age_seconds now) = None"
    and "RAGCache_get (fst (get_cached_query H c query max_age_seconds now))
           (sha256_hexdigest H (str_lower H query)) = None"
  using assms
  by (simp_all add: get_cached_query_def RAGCache_get_def Let_def AList.delete_conv')

text \<open>
  Claim C5 fails on the code for the accessor \<open>get\<close>. An entry written at time 0, by
  \<open>set\<close> or by \<open>cache_query_result\<close>, is returned by \<open>get\<close> whenever it is asked
  for: \<open>get\<close> takes no clock reading and compares no age. The age-checking accessor
  refuses the same entry 601 seconds later, with the 600-second bound of its signature.
\<close>

theorem get_returns_expired_entry:
  "RAGCache_get (RAGCache_set (RAGCache_init 200) ''k'' ''v'' 0) ''k'' = Some (ValueEntry ''v'' 0)
   \<and> RAGCache_get (cache_query_result plain_lib (RAGCache_init 200) ''price of dosa'' ''ctx'' 1 0)
        (sha256_hexdigest plain_lib (str_lower plain_lib ''price of dosa''))
      = Some (ContextEntry ''ctx'' 0 1)
   \<and> snd (get_cached_query plain_lib
           (cache_query_result plain_lib (RAGCache_init 200) ''price of dosa'' ''ctx'' 1 0)
           ''price of dosa'' 600 601) = None"
  by (simp add: RAGCache_get_def RAGCache_set_def RAGCache_init_def cache_query_result_def
      get_cached_query_def evict_if_full_def plain_lib_def Let_def)

section \<open>Properties of the cache of answer engines\<close>













section \<open>Properties of the answer engine\<close>

lemma parts_reply_fallback: "parts_reply p = Fallback m \<Longrightarrow> m \<in> set api_fallbacks"
  by (auto simp: parts_reply_def api_fallbacks_def split: if_splits sum.splits)

lemma candidate_reply_fallback:
  "candidate_reply L c = Inr (Fallback m) \<Longrightarrow> m \<in> set api_fallbacks"
proof -
  assume a: "candidate_reply L c = Inr (Fallback m)"
  have s: "msg_safety \<in> set api_fallbacks" by (simp add: api_fallbacks_def)
  show ?thesis
    using a s
    by (auto simp: candidate_reply_def bind_err_def split: sum.splits json.splits if_splits
        dest: parts_reply_fallback)
qed

lemma parse_response_fallback:
  "parse_response L r = Inr (Fallback m) \<Longrightarrow> m \<in> set api_fallbacks"
proof -
  assume a: "parse_response L r = Inr (Fallback m)"
  have s: "msg_no_candidates \<in> set api_fallbacks" by (simp add: api_fallbacks_def)
  show ?thesis
    using a s
    by (auto simp: parse_response_def bind_err_def split: sum.splits if_splits
        dest: candidate_reply_fallback)
qed

lemma call_api_fallback:
  "call_api L outcome = Fallback m \<Longrightarrow> m \<in> set api_fallbacks"
proof -
  assume a: "call_api L outcome = Fallback m"
  have u: "m = msg_unexpected \<Longrightarrow> m \<in> set api_fallbacks"
    by (simp add: api_fallbacks_def)
  show ?thesis
  proof (cases "call_api_body L outcome")
    case (Inl e)
    then show ?thesis using a u by (simp add: call_api_def)
  next
    case (Inr r)
    then have r: "call_api_body L outcome = Inr (Fallback m)"
      using a by (simp add: call_api_def)
    show ?thesis
    proof (cases outcome)
      case (Response b)
      then show ?thesis
        using r by (cases b) (auto simp: call_api_body_def api_fallbacks_def
            dest: parse_response_fallback)
    qed (use r in \<open>auto simp: call_api_body_def api_fallbacks_def split: option.splits if_splits\<close>)
  qed
qed

lemma call_api_generated:
  "call_api L outcome = Generated t \<Longrightarrow>
     \<exists>body. outcome = Response (Some body) \<and> parse_response L body = Inr (Generated t)"
  by (cases outcome)
     (auto simp: call_api_def call_api_body_def split: sum.splits option.splits if_splits)

lemma handler_returns: "log_error_call 3 [] = Inr ()"
  by (simp add: log_error_call_def)

lemma invoke_fallback_or_generated:
  "\<exists>s. invoke L chain_present import_ok chain query launguage = Inr s
       \<and> (s \<in> set invoke_fallbacks
            \<or> (\<exists>body t. chain = ChainCalls (Response (Some body))
                  \<and> parse_response L body = Inr (Generated t) \<and> s = finish_response t))"
proof (cases "invoke_body L chain_present import_ok chain query launguage")
  case (Inl e)
  then show ?thesis
    by (simp add: invoke_def handler_returns bind_err_def invoke_fallbacks_def)
next
  case (Inr s)
  then have i: "invoke L chain_present import_ok chain query launguage = Inr s"
    by (simp add: invoke_def)
  consider "s = msg_provide_question" | "s = msg_not_ready"
    | outcome where "chain = ChainCalls outcome"
        "s = finish_response (reply_text (call_api L outcome))"
    using Inr by (auto simp: invoke_body_def split: option.splits if_splits chain_run.splits)
  then show ?thesis
  proof cases
    case 1
    then show ?thesis using i by (simp add: invoke_fallbacks_def)
  next
    case 2
    then show ?thesis using i by (simp add: invoke_fallbacks_def)
  next
    case 3
    show ?thesis
    proof (cases "call_api L outcome")
      case (Fallback m)
      then have "finish_response m \<in> set invoke_fallbacks"
        using call_api_fallback [of L outcome m] by (simp add: invoke_fallbacks_def)
      then show ?thesis using i 3 Fallback by simp
    next
      case (Generated t)
      then show ?thesis
        using i 3 call_api_generated [of L outcome t] by auto
    qed
  qed
qed

lemmas msg_defs = msg_timeout_def msg_bad_request_def msg_too_many_def msg_server_error_def
  msg_unreachable_def msg_connection_def msg_unreadable_def msg_no_candidates_def msg_safety_def
  msg_trouble_def msg_parse_error_def msg_unexpected_def msg_provide_question_def msg_not_ready_def
  msg_no_proper_response_def msg_invoke_error_def

lemma length_ascii: "length (ascii s) = length s"
  by (simp add: ascii_def)

lemma ascii_Cons: "ascii (c # s) = of_char c # ascii s"
  by (simp add: ascii_def)

lemma ascii_Nil: "ascii [] = []"
  by (simp add: ascii_def)

lemma last_ascii: "s \<noteq> [] \<Longrightarrow> last (ascii s) = of_char (last s)"
  by (simp add: ascii_def last_map)

lemma strip_id:
  assumes "r \<noteq> []" "\<not> is_space (hd r)" "\<not> is_space (last r)"
  shows "strip r = r"
proof -
  have a: "dropWhile is_space r = r"
    using assms(1,2) by (cases r) simp_all
  have "rev r \<noteq> []" "\<not> is_space (hd (rev r))"
    using assms(1,3) by (simp_all add: hd_rev)
  then have "dropWhile is_space (rev r) = rev r"
    by (cases "rev r") simp_all
  then show ?thesis by (simp add: strip_def a)
qed

lemma finish_response_sentence:
  assumes "\<not> is_space (hd r)" "\<not> is_space (last r)" "20 < length r"
  shows "finish_response r = (if last r \<in> set sentence_end then r else r @ ascii ''...'')"
proof -
  have n: "r \<noteq> []" using assms(3) by auto
  have s: "strip r = r" by (rule strip_id [OF n assms(1,2)])
  show ?thesis
    using n assms(3) by (simp add: finish_response_def s Let_def)
qed

text \<open>
  The fixed replies as \<open>invoke\<close> returns them: only the timeout reply, which ends in a
  pictograph, gets the ellipsis appended.
\<close>

lemma finish_response_fallbacks:
  "finish_response msg_timeout = msg_timeout @ ascii ''...''"
  "finish_response msg_bad_request = msg_bad_request"
  "finish_response msg_too_many = msg_too_many"
  "finish_response msg_server_error = msg_server_error"
  "finish_response msg_unreachable = msg_unreachable"
  "finish_response msg_connection = msg_connection"
  "finish_response msg_unreadable = msg_unreadable"
  "finish_response msg_no_candidates = msg_no_candidates"
  "finish_response msg_safety = msg_safety"
  "finish_response msg_trouble = msg_trouble"
  "finish_response msg_parse_error = msg_parse_error"
  "finish_response msg_unexpected = msg_unexpected"
  by (subst finish_response_sentence;
      simp add: msg_defs length_ascii is_space_def sentence_end_def ascii_Cons ascii_Nil)+

lemma invoke_generation:
  "q \<noteq> [] \<Longrightarrow>
     invoke L True True (ChainCalls outcome) (Some q) launguage
       = Inr (finish_response (reply_text (call_api L outcome)))"
  by (simp add: invoke_def invoke_body_def)

lemma parse_response_no_dict:
  "\<not> is_dict body \<Longrightarrow> parse_response L body = Inl AttributeError"
  by (cases body) (simp_all add: parse_response_def bind_err_def)

lemma parse_response_candidates_missing:
  "map_of kvs (ascii ''candidates'') = None \<Longrightarrow>
     parse_response L (JObj kvs) = Inr (Fallback msg_no_candidates)"
  by (simp add: parse_response_def bind_err_def)

lemma parse_response_candidates_empty:
  "map_of kvs (ascii ''candidates'') = Some c \<Longrightarrow> \<not> truthy c \<or> \<not> is_list c \<Longrightarrow>
     parse_response L (JObj kvs) = Inr (Fallback msg_no_candidates)"
  by (auto simp: parse_response_def bind_err_def)

lemma parse_response_safety:
  assumes "map_of kvs (ascii ''candidates'') = Some (JArr (JObj ckvs # cs))"
    and "map_of ckvs (ascii ''finishReason'') = Some (JStr s)"
    and "u_upper L s = ascii ''SAFETY''"
  shows "parse_response L (JObj kvs) = Inr (Fallback msg_safety)"
proof -
  have n: "ckvs \<noteq> []"
    using assms(2) by auto
  have c: "py_or (first_candidate (JArr (JObj ckvs # cs))) (JObj []) = JObj ckvs"
    using n by (simp add: py_or_def first_candidate_def)
  have f: "py_or (JStr s) (JStr []) = JStr s"
    by (simp add: py_or_def)
  have "candidate_reply L (JObj ckvs) = Inr (Fallback msg_safety)"
    using assms(2,3) by (simp add: candidate_reply_def bind_err_def f)
  then show ?thesis
    using assms(1) by (simp add: parse_response_def bind_err_def c)
qed

text \<open>
  Claim C8. \<open>invoke\<close> returns a string for every query, language, state of the chain
  and behaviour of the generation service, and raises nothing. The string is one of the
  fixed replies, unless the service answered with a JSON body from which
  \<^verbatim>\<open>_call_api\<close> took a non-empty text. In particular, for a non-empty question on a
  ready engine: an exception in the chain, a timeout, a connection failure, any other
  request failure, an HTTP error status, a body that is not JSON or not a dictionary,
  missing or empty candidates, and a first candidate blocked for safety each give the
  one fixed reply the code writes for that case; and a question that is missing or
  empty, an engine without chain and a failing import give their fixed replies too.
\<close>

theorem invoke_returns_text:
  "(\<exists>t. invoke L chain_present import_ok chain query launguage = Inr t
       \<and> (t \<in> set invoke_fallbacks
            \<or> (\<exists>body g. chain = ChainCalls (Response (Some body))
                  \<and> parse_response L body = Inr (Generated g) \<and> t = finish_response g)))
   \<and> invoke L chain_present import_ok chain None launguage = Inr msg_provide_question
   \<and> invoke L chain_present import_ok chain (Some []) launguage = Inr msg_provide_question
   \<and> (q \<noteq> [] \<longrightarrow>
        invoke L False import_ok chain (Some q) launguage = Inr msg_not_ready
      \<and> invoke L True False chain (Some q) launguage = Inr msg_invoke_error
      \<and> invoke L True True ChainRaises (Some q) launguage = Inr msg_invoke_error
      \<and> invoke L True True (ChainCalls Timeout) (Some q) launguage
            = Inr (msg_timeout @ ascii ''...'')
      \<and> invoke L True True (ChainCalls ConnectionError) (Some q) launguage
            = Inr msg_connection
      \<and> invoke L True True (ChainCalls RequestException) (Some q) launguage
            = Inr msg_unreachable
      \<and> invoke L True True (ChainCalls OtherException) (Some q) launguage
            = Inr msg_unexpected
      \<and> invoke L True True (ChainCalls (HTTPError None)) (Some q) launguage
            = Inr msg_unexpected
      \<and> invoke L True True (ChainCalls (HTTPError (Some status_code))) (Some q) launguage
            = Inr (if status_code = 400 then msg_bad_request
                   else if status_code = 429 then msg_too_many
                   else if 500 \<le> status_code then msg_server_error
                   else msg_unreachable)
      \<and> invoke L True True (ChainCalls (Response None)) (Some q) launguage
            = Inr msg_unreadable
      \<and> (\<not> is_dict body \<longrightarrow>
            invoke L True True (ChainCalls (Response (Some body))) (Some q) launguage
              = Inr msg_unexpected)
      \<and> (map_of kvs (ascii ''candidates'') = None \<longrightarrow>
            invoke L True True (ChainCalls (Response (Some (JObj kvs)))) (Some q) launguage
              = Inr msg_no_candidates)
      \<and> (map_of kvs (ascii ''candidates'') = Some c \<and> (\<not> truthy c \<or> \<not> is_list c) \<longrightarrow>
            invoke L True True (ChainCalls (Response (Some (JObj kvs)))) (Some q) launguage
              = Inr msg_no_candidates)
      \<and> (map_of kvs (ascii ''candidates'') = Some (JArr (JObj ckvs # cs))
            \<and> map_of ckvs (ascii ''finishReason'') = Some (JStr s)
            \<and> u_upper L s = ascii ''SAFETY'' \<longrightarrow>
            invoke L True True (ChainCalls (Response (Some (JObj kvs)))) (Some q) launguage
              = Inr msg_safety))"
proof (intro conjI impI)
  show "\<exists>t. invoke L chain_present import_ok chain query launguage = Inr t
       \<and> (t \<in> set invoke_fallbacks
            \<or> (\<exists>body g. chain = ChainCalls (Response (Some body))
                  \<and> parse_response L body = Inr (Generated g) \<and> t = finish_response g))"
    by (rule invoke_fallback_or_generated)
  show "invoke L chain_present import_ok chain None launguage = Inr msg_provide_question"
    by (simp add: invoke_def invoke_body_def)
  show "invoke L chain_present import_ok chain (Some []) launguage = Inr msg_provide_question"
    by (simp add: invoke_def invoke_body_def)
next
  assume q: "q \<noteq> []"
  note g = invoke_generation [OF q, of L _ launguage]
  note f = finish_response_fallbacks
  show "invoke L False import_ok chain (Some q) launguage = Inr msg_not_ready"
    using q by (simp add: invoke_def invoke_body_def)
  show "invoke L True False chain (Some q) launguage = Inr msg_invoke_error"
    using q by (simp add: invoke_def invoke_body_def bind_err_def handler_returns)
  show "invoke L True True ChainRaises (Some q) launguage = Inr msg_invoke_error"
    using q by (simp add: invoke_def invoke_body_def bind_err_def handler_returns)
  show "invoke L True True (ChainCalls Timeout) (Some q) launguage
            = Inr (msg_timeout @ ascii ''...'')"
    by (simp add: g call_api_def call_api_body_def f)
  show "invoke L True True (ChainCalls ConnectionError) (Some q) launguage = Inr msg_connection"
    by (simp add: g call_api_def call_api_body_def f)
  show "invoke L True True (ChainCalls RequestException) (Some q) launguage = Inr msg_unreachable"
    by (simp add: g call_api_def call_api_body_def f)
  show "invoke L True True (ChainCalls OtherException) (Some q) launguage = Inr msg_unexpected"
    by (simp add: g call_api_def call_api_body_def f)
  show "invoke L True True (ChainCalls (HTTPError None)) (Some q) launguage = Inr msg_unexpected"
    by (simp add: g call_api_def call_api_body_def f)
  show "invoke L True True (ChainCalls (HTTPError (Some status_code))) (Some q) launguage
            = Inr (if status_code = 400 then msg_bad_request
                   else if status_code = 429 then msg_too_many
                   else if 500 \<le> status_code then msg_server_error
                   else msg_unreachable)"
    by (simp add: g call_api_def call_api_body_def f)
  show "invoke L True True (ChainCalls (Response None)) (Some q) launguage = Inr msg_unreadable"
    by (simp add: g call_api_def call_api_body_def f)
next
  assume q: "q \<noteq> []" and "\<not> is_dict body"
  then show "invoke L True True (ChainCalls (Response (Some body))) (Some q) launguage
              = Inr msg_unexpected"
    by (simp add: invoke_generation call_api_def call_api_body_def parse_response_no_dict
        finish_response_fallbacks)
next
  assume q: "q \<noteq> []" and "map_of kvs (ascii ''candidates'') = None"
  then show "invoke L True True (ChainCalls (Response (Some (JObj kvs)))) (Some q) launguage
              = Inr msg_no_candidates"
    by (simp add: invoke_generation call_api_def call_api_body_def
        parse_response_candidates_missing finish_response_fallbacks)
next
  assume q: "q \<noteq> []"
    and "map_of kvs (ascii ''candidates'') = Some c \<and> (\<not> truthy c \<or> \<not> is_list c)"
  then have "parse_response L (JObj kvs) = Inr (Fallback msg_no_candidates)"
    using parse_response_candidates_empty [of kvs c L] by blast
  then show "invoke L True True (ChainCalls (Response (Some (JObj kvs)))) (Some q) launguage
              = Inr msg_no_candidates"
    using q by (simp add: invoke_generation call_api_def call_api_body_def
        finish_response_fallbacks)
next
  assume q: "q \<noteq> []"
    and "map_of kvs (ascii ''candidates'') = Some (JArr (JObj ckvs # cs))
            \<and> map_of ckvs (ascii ''finishReason'') = Some (JStr s)
            \<and> u_upper L s = ascii ''SAFETY''"
  then have "parse_response L (JObj kvs) = Inr (Fallback msg_safety)"
    using parse_response_safety [of kvs ckvs cs s L] by blast
  then show "invoke L True True (ChainCalls (Response (Some (JObj kvs)))) (Some q) launguage
              = Inr msg_safety"
    using q by (simp add: invoke_generation call_api_def call_api_body_def
        finish_response_fallbacks)
qed

lemmas engine_defs = invoke_def invoke_body_def call_api_def call_api_body_def parse_response_def
  candidate_reply_def parts_reply_def first_candidate_def list_items_def py_or_def bind_err_def
  log_error_call_def answer_body_def ascii_unicode_def ascii_upper_char_def ascii_lower_char_def

theorem invoke_returns_text_witness:
  "invoke ascii_unicode True True
     (ChainCalls (Response (Some (answer_body (ascii ''Masala Dosa is Rs 90.'')))))
     (Some (ascii ''price of dosa'')) (ascii ''English'')
   = Inr (ascii ''Masala Dosa is Rs 90.'')
   \<and> invoke ascii_unicode True True (ChainCalls Timeout)
       (Some (ascii ''price of dosa'')) (ascii ''English'')
     = Inr (msg_timeout @ ascii ''...'')
   \<and> invoke ascii_unicode True True (ChainCalls (Response (Some safety_body)))
       (Some (ascii ''price of dosa'')) (ascii ''English'')
     = Inr msg_safety
   \<and> invoke ascii_unicode True True (ChainCalls (Response (Some empty_body)))
       (Some (ascii ''price of dosa'')) (ascii ''English'')
     = Inr msg_no_candidates"
proof -
  have q: "ascii ''price of dosa'' \<noteq> []"
    by (simp add: ascii_def)
  have a: "invoke ascii_unicode True True
             (ChainCalls (Response (Some (answer_body (ascii ''Masala Dosa is Rs 90.'')))))
             (Some (ascii ''price of dosa'')) (ascii ''English'')
           = Inr (ascii ''Masala Dosa is Rs 90.'')"
    by (simp add: engine_defs finish_response_sentence
        length_ascii is_space_def sentence_end_def ascii_Cons ascii_Nil strip_id)
  have s1: "map_of [(ascii ''candidates'', JArr [JObj [(ascii ''finishReason'', JStr (ascii ''safety''))]])]
              (ascii ''candidates'')
            = Some (JArr (JObj [(ascii ''finishReason'', JStr (ascii ''safety''))] # []))
          \<and> map_of [(ascii ''finishReason'', JStr (ascii ''safety''))] (ascii ''finishReason'')
            = Some (JStr (ascii ''safety''))
          \<and> u_upper ascii_unicode (ascii ''safety'') = ascii ''SAFETY''"
    by (simp add: ascii_def ascii_unicode_def ascii_upper_char_def)
  have e1: "map_of [(ascii ''candidates'', JArr [])] (ascii ''candidates'') = Some (JArr [])
          \<and> (\<not> truthy (JArr []) \<or> \<not> is_list (JArr []))"
    by simp
  note w = invoke_returns_text
      [where L = ascii_unicode and q = "ascii ''price of dosa''" and launguage = "ascii ''English''"
         and chain_present = True and import_ok = True and chain = "ChainCalls Timeout"
         and query = None and status_code = 400 and body = JNull and cs = "[]"
         and s = "ascii ''safety''"
         and ckvs = "[(ascii ''finishReason'', JStr (ascii ''safety''))]"]
  have t: "invoke ascii_unicode True True (ChainCalls Timeout)
             (Some (ascii ''price of dosa'')) (ascii ''English'')
           = Inr (msg_timeout @ ascii ''...'')"
    using w [where kvs = "[]" and c = JNull] q by blast
  have s: "invoke ascii_unicode True True (ChainCalls (Response (Some safety_body)))
             (Some (ascii ''price of dosa'')) (ascii ''English'') = Inr msg_safety"
    unfolding safety_body_def
    using w [where c = JNull
               and kvs = "[(ascii ''candidates'',
                            JArr [JObj [(ascii ''finishReason'', JStr (ascii ''safety''))]])]"]
          q s1
    by blast
  have e: "invoke ascii_unicode True True (ChainCalls (Response (Some empty_body)))
             (Some (ascii ''price of dosa'')) (ascii ''English'') = Inr msg_no_candidates"
    unfolding empty_body_def
    using w [where c = "JArr []" and kvs = "[(ascii ''candidates'', JArr [])]"] q e1
    by blast
  show ?thesis
    using a t s e by blast
qed

section \<open>Properties of the extraction verifier\<close>

lemmas verifier_defs = invoke_for_Res_def invoke_for_Res_body_def verified_response_def
  read_size_def verify_price_def set_item_def failure_def dosa_extraction_def dosa_retriever_def
  price_of_def bind_err_def log_error_call_def logger_getattr_def logger_attributes_def
  ascii_unicode_def ascii_lower_char_def ascii_upper_char_def strip_def is_space_def ascii_def

lemmas rx_defs = extract_price_from_menu_def patterns_def price_tail_def price_pattern_def
  currency_def number_def lit_prefix_def to_float_def digits_value_def dosa_menu_def
  ascii_unicode_def ascii_lower_char_def ascii_upper_char_def strip_def is_space_def ascii_def
  Let_def

text \<open>The pattern matching itself recovers 90 from the menu line.\<close>

lemma extract_price_dosa:
  "extract_price_from_menu ascii_unicode dosa_menu (ascii ''masala dosa'') None = Some 90"
  by (simp add: rx_defs upt_rec)

text \<open>
  Claim C3 fails on the code. The response of the extraction chain carries the item
  under the key \<open>food_name\<close> of the response schema, and \<open>invoke_for_Res\<close> reads the
  key \<open>foodname\<close>: the name it verifies with is empty, the verification is skipped, and
  the model's price 120 is returned although the menu says 90.
\<close>

theorem price_not_overridden:
  "price_of (invoke_for_Res ascii_unicode (Some dosa_retriever) True (Inr dosa_extraction)
              (Some (ascii ''one masala dosa''))) = Some (JNum 120)"
  by (simp add: verifier_defs)

text \<open>
  Had the response carried the item under the key the method reads, the price would
  have been overridden as the claim says.
\<close>

lemma price_overridden_with_foodname_key:
  "price_of (invoke_for_Res ascii_unicode (Some dosa_retriever) True
              (Inr (set_item dosa_extraction (ascii ''foodname'') (JStr (ascii ''masala dosa''))))
              (Some (ascii ''one masala dosa''))) = Some (JNum 90)"
proof -
  have m: "extract_price_from_menu ascii_unicode (concat [dosa_menu])
             (ascii ''masala dosa'') None = Some 90"
    using extract_price_dosa by simp
  show ?thesis
    using m
    by (simp add: invoke_for_Res_def invoke_for_Res_body_def verified_response_def
        read_size_def verify_price_def set_item_def dosa_extraction_def dosa_retriever_def
        price_of_def bind_err_def ascii_unicode_def ascii_def strip_def is_space_def
        ascii_lower_char_def)
qed

text \<open>
  When the extraction chain raises, the outer handler itself raises: it passes
  \<open>log_error\<close> keyword arguments that its signature does not have.
\<close>

lemma invoke_for_Res_handler_raises:
  "invoke_for_Res L retriever True (Inl e) (Some (ascii ''one masala dosa'')) = Inl TypeError"
  by (simp add: invoke_for_Res_def invoke_for_Res_body_def bind_err_def log_error_call_def
      ascii_def)

end
